theory Spec2Isabelle
  imports Complex_Main
begin

section \<open>Arrays\<close>

text \<open>
  The tensors of \<^verbatim>\<open>main/dataset/base.py\<close> are modelled as nested lists over the reals:
  a vector is a list, a matrix a list of rows, a time series a list of frames (axis 0 is
  the time axis). Floating-point rounding is not modelled. A unit axis that the source
  inserts with \<^verbatim>\<open>[:, None]\<close> and removes again with \<^verbatim>\<open>.squeeze(1)\<close> is not represented:
  both operations are the identity on the list of frames.
\<close>

type_synonym vec = "real list"
type_synonym mat = "real list list"

datatype error = ValueError | KeyError | ZeroDivisionError | AssertionError

definition bindE :: "error + 'a \<Rightarrow> ('a \<Rightarrow> error + 'b) \<Rightarrow> error + 'b" where
  "bindE m f = (case m of Inl e \<Rightarrow> Inl e | Inr x \<Rightarrow> f x)"

definition vadd :: "vec \<Rightarrow> vec \<Rightarrow> vec" where
  "vadd u v = map2 (+) u v"

definition vsub :: "vec \<Rightarrow> vec \<Rightarrow> vec" where
  "vsub u v = map2 (-) u v"

definition dot :: "vec \<Rightarrow> vec \<Rightarrow> real" where
  "dot u v = sum_list (map2 (*) u v)"

definition column :: "mat \<Rightarrow> nat \<Rightarrow> vec" where
  "column A j = map (\<lambda>row. row ! j) A"

text \<open>\<^verbatim>\<open>A.T\<close> (and \<^verbatim>\<open>A.transpose(-1, -2)\<close>) of a matrix with \<open>c\<close> columns. NumPy and
  Torch keep the shape with the array; here the column count is passed along.\<close>

definition transpose_m :: "nat \<Rightarrow> mat \<Rightarrow> mat" where
  "transpose_m c A = map (column A) [0..<c]"

text \<open>\<^verbatim>\<open>A @ B\<close> where \<open>B\<close> has \<open>c\<close> columns.\<close>

definition matmul :: "nat \<Rightarrow> mat \<Rightarrow> mat \<Rightarrow> mat" where
  "matmul c A B = map (\<lambda>row. map (\<lambda>j. dot row (column B j)) [0..<c]) A"

text \<open>Matrix-vector product, used to state what the array expressions compute per frame.\<close>

definition mv :: "mat \<Rightarrow> vec \<Rightarrow> vec" where
  "mv A v = map (\<lambda>row. dot row v) A"

text \<open>The slices \<^verbatim>\<open>M[:3, :3]\<close> and \<^verbatim>\<open>M[:3, 3]\<close> of a homogeneous transform.\<close>

definition rot_block :: "mat \<Rightarrow> mat" where
  "rot_block M = map (take 3) (take 3 M)"

definition transl_col :: "mat \<Rightarrow> vec" where
  "transl_col M = column (take 3 M) 3"

text \<open>Python's slice \<^verbatim>\<open>xs[:n]\<close> for an integer \<open>n\<close>: a negative bound counts from the end.\<close>

definition py_prefix :: "int \<Rightarrow> 'a list \<Rightarrow> 'a list" where
  "py_prefix n xs = (if 0 \<le> n then take (nat n) xs else take (length xs - nat (- n)) xs)"

text \<open>The slice under the guard of the two truncation blocks, for stating what they do to
  each field.\<close>

definition clip :: "bool \<Rightarrow> int \<Rightarrow> 'a list \<Rightarrow> 'a list" where
  "clip too_long n xs = (if too_long then py_prefix n xs else xs)"

text \<open>\<^verbatim>\<open>(R @ X.T).T + p\<close> for \<open>X\<close> of shape \<open>[T, 3]\<close>: the source writes this expression for
  \<^verbatim>\<open>wrist_pos\<close> and for every entry of \<^verbatim>\<open>mano_joints\<close>; \<^verbatim>\<open>+ p\<close> broadcasts over the rows.\<close>

definition rotate_translate :: "mat \<Rightarrow> vec \<Rightarrow> mat \<Rightarrow> mat" where
  "rotate_translate R p X =
     map (\<lambda>row. vadd row p) (transpose_m (length X) (matmul (length X) R (transpose_m 3 X)))"

section \<open>Global random-number state and the surface sampler\<close>

text \<open>
  The process-wide state that \<^verbatim>\<open>random_sampling_pc\<close> reads and writes: NumPy's global
  generator, Torch's default CPU generator, one Torch generator per CUDA device together
  with the index of the current device, and the two cuDNN backend flags. A generator state
  is the byte string that \<^verbatim>\<open>get_state\<close> / \<^verbatim>\<open>get_rng_state\<close> return.
\<close>

type_synonym rng = "nat list"

record globals =
  np_random_state :: rng
  torch_cpu_state :: rng
  torch_cuda_state :: "nat \<Rightarrow> rng"
  cuda_current_device :: nat
  cudnn_deterministic :: bool
  cudnn_benchmark :: bool

text \<open>
  The library functions the sampler calls are parameters: the states that seeding produces,
  and \<^verbatim>\<open>pytorch3d.ops.sample_points_from_meshes\<close>, which draws from the generators it is
  given and leaves them advanced. The mesh is a batch of one mesh, the \<open>[1, n, 3]\<close> result
  is returned without its unit batch axis (the source's \<^verbatim>\<open>.squeeze(0)\<close>), and the sampler is
  taken to return normally (the spec assumes a valid mesh).
\<close>

record 'mesh rng_library =
  np_seed_state :: "int \<Rightarrow> rng"
  torch_seed_state :: "int \<Rightarrow> rng"
  cuda_seed_state :: "int \<Rightarrow> rng"
  sample_points_from_meshes ::
    "'mesh \<Rightarrow> nat \<Rightarrow> rng \<times> rng \<times> (nat \<Rightarrow> rng) \<Rightarrow> vec list \<times> rng \<times> rng \<times> (nat \<Rightarrow> rng)"

definition np_random_seed :: "'mesh rng_library \<Rightarrow> int \<Rightarrow> globals \<Rightarrow> globals" where
  "np_random_seed lib s g = g\<lparr>np_random_state := np_seed_state lib s\<rparr>"

text \<open>\<^verbatim>\<open>torch.manual_seed\<close> seeds the CPU generator and the generator of every CUDA device.\<close>

definition torch_manual_seed :: "'mesh rng_library \<Rightarrow> int \<Rightarrow> globals \<Rightarrow> globals" where
  "torch_manual_seed lib s g =
     g\<lparr>torch_cpu_state := torch_seed_state lib s,
       torch_cuda_state := (\<lambda>_. cuda_seed_state lib s)\<rparr>"

text \<open>\<^verbatim>\<open>torch.cuda.manual_seed\<close> seeds the current device, \<^verbatim>\<open>manual_seed_all\<close> every device.\<close>

definition torch_cuda_manual_seed :: "'mesh rng_library \<Rightarrow> int \<Rightarrow> globals \<Rightarrow> globals" where
  "torch_cuda_manual_seed lib s g =
     g\<lparr>torch_cuda_state := (torch_cuda_state g)(cuda_current_device g := cuda_seed_state lib s)\<rparr>"

definition torch_cuda_manual_seed_all :: "'mesh rng_library \<Rightarrow> int \<Rightarrow> globals \<Rightarrow> globals" where
  "torch_cuda_manual_seed_all lib s g = g\<lparr>torch_cuda_state := (\<lambda>_. cuda_seed_state lib s)\<rparr>"

text \<open>\<^verbatim>\<open>torch.cuda.get_rng_state()\<close> and \<^verbatim>\<open>torch.cuda.set_rng_state(s)\<close> with their default
  device argument act on the current device only.\<close>

definition torch_cuda_get_rng_state :: "globals \<Rightarrow> rng" where
  "torch_cuda_get_rng_state g = torch_cuda_state g (cuda_current_device g)"

definition torch_cuda_set_rng_state :: "rng \<Rightarrow> globals \<Rightarrow> globals" where
  "torch_cuda_set_rng_state s g =
     g\<lparr>torch_cuda_state := (torch_cuda_state g)(cuda_current_device g := s)\<rparr>"

definition draw_points :: "'mesh rng_library \<Rightarrow> 'mesh \<Rightarrow> nat \<Rightarrow> globals \<Rightarrow> vec list \<times> globals" where
  "draw_points lib mesh n g =
     (case sample_points_from_meshes lib mesh n
             (np_random_state g, torch_cpu_state g, torch_cuda_state g) of
        (pts, np', cpu', cuda') \<Rightarrow>
          (pts, g\<lparr>np_random_state := np', torch_cpu_state := cpu', torch_cuda_state := cuda'\<rparr>))"

definition random_sampling_pc :: "'mesh rng_library \<Rightarrow> 'mesh \<Rightarrow> globals \<Rightarrow> vec list \<times> globals" where
  "random_sampling_pc lib mesh g0 =
     (let numpy_random_state = np_random_state g0;
          torch_random_state = torch_cpu_state g0;
          torch_random_state_cuda = torch_cuda_get_rng_state g0;
          g1 = np_random_seed lib 0 g0;
          g2 = torch_manual_seed lib 0 g1;
          g3 = torch_cuda_manual_seed lib 0 g2;
          g4 = torch_cuda_manual_seed_all lib 0 g3;
          g5 = g4\<lparr>cudnn_deterministic := True\<rparr>;
          g6 = g5\<lparr>cudnn_benchmark := False\<rparr>;
          (rs_verts_obj, g7) = draw_points lib mesh 1000 g6;
          g8 = g7\<lparr>np_random_state := numpy_random_state\<rparr>;
          g9 = g8\<lparr>torch_cpu_state := torch_random_state\<rparr>;
          g10 = torch_cuda_set_rng_state torch_random_state_cuda g9
      in (rs_verts_obj, g10))"

text \<open>The state in which the draw is made, whatever the ambient state was.\<close>

definition seeded_rngs :: "'mesh rng_library \<Rightarrow> rng \<times> rng \<times> (nat \<Rightarrow> rng)" where
  "seeded_rngs lib = (np_seed_state lib 0, torch_seed_state lib 0, (\<lambda>_. cuda_seed_state lib 0))"

text \<open>A small library instance for concrete evaluation: a seed's state is the seed itself,
  and the sampler places its points along the x axis from the first byte of the CPU
  generator, which it advances by the number of points drawn.\<close>

definition demo_library :: "unit rng_library" where
  "demo_library =
     \<lparr>np_seed_state = (\<lambda>s. [nat s]),
      torch_seed_state = (\<lambda>s. [nat s]),
      cuda_seed_state = (\<lambda>s. [nat s]),
      sample_points_from_meshes =
        (\<lambda>_ n (np, cpu, cuda). (map (\<lambda>i. [real (sum_list cpu + i), 0, 0]) [0..<n],
                                  np, map (\<lambda>b. b + n) cpu, cuda))\<rparr>"

definition demo_globals :: globals where
  "demo_globals =
     \<lparr>np_random_state = [11], torch_cpu_state = [22], torch_cuda_state = (\<lambda>d. [33 + d]),
      cuda_current_device = 0, cudnn_deterministic = False, cudnn_benchmark = True\<rparr>"

section \<open>Finite-difference kinematics\<close>

text \<open>\<^verbatim>\<open>np.gradient(x, axis=0)\<close> with unit spacing: central differences inside, one-sided
  differences at the two ends, elementwise on the frames. NumPy raises ValueError when the
  axis has fewer than two entries.\<close>

definition np_gradient :: "mat \<Rightarrow> error + mat" where
  "np_gradient x =
     (let n = length x
      in if n < 2 then Inl ValueError
         else Inr (map (\<lambda>i. if i = 0 then vsub (x ! 1) (x ! 0)
                              else if i = n - 1 then vsub (x ! (n - 1)) (x ! (n - 2))
                              else map (\<lambda>d. d / 2) (vsub (x ! (i + 1)) (x ! (i - 1))))
                        [0..<n]))"

text \<open>\<^verbatim>\<open>scipy.ndimage.gaussian_filter1d(x, sigma, axis=0, mode="nearest")\<close>: the kernel has
  radius \<open>int(4 * sigma + 0.5)\<close>, its weights \<open>exp(-0.5 / sigma\<^sup>2 * k\<^sup>2)\<close> are normalised to
  sum 1, and the series is correlated with the reversed kernel; an index beyond either end
  of the series reads the nearest end.\<close>

definition gaussian_kernel1d :: "real \<Rightarrow> nat \<Rightarrow> real list" where
  "gaussian_kernel1d sigma radius =
     (let phi_x = map (\<lambda>k. exp (- 0.5 / (sigma * sigma) * (real_of_int k) ^ 2))
                      [- int radius..int radius]
      in map (\<lambda>p. p / sum_list phi_x) phi_x)"

definition nearest_index :: "nat \<Rightarrow> int \<Rightarrow> nat" where
  "nearest_index n i = nat (max 0 (min (int n - 1) i))"

definition correlate1d_nearest :: "mat \<Rightarrow> real list \<Rightarrow> mat" where
  "correlate1d_nearest x w =
     map (\<lambda>i. map (\<lambda>c. \<Sum>j\<leftarrow>[0..<length w].
                          w ! j * x ! nearest_index (length x) (int i + int j - int (length w div 2)) ! c)
                   [0..<length (x ! i)])
         [0..<length x]"

definition gaussian_filter1d :: "mat \<Rightarrow> real \<Rightarrow> mat" where
  "gaussian_filter1d x sigma =
     correlate1d_nearest x (rev (gaussian_kernel1d sigma (nat \<lfloor>4 * sigma + 0.5\<rfloor>)))"

definition compute_velocity :: "mat \<Rightarrow> real \<Rightarrow> bool \<Rightarrow> error + mat" where
  "compute_velocity p time_delta guassian_filter =
     bindE (np_gradient p) (\<lambda>g.
       let velocity = map (map (\<lambda>x. x / time_delta)) g
       in Inr (if guassian_filter then gaussian_filter1d velocity 2 else velocity))"

definition compute_dof_velocity :: "mat \<Rightarrow> real \<Rightarrow> bool \<Rightarrow> error + mat" where
  "compute_dof_velocity dof time_delta guassian_filter =
     bindE (np_gradient dof) (\<lambda>g.
       let velocity = map (map (\<lambda>x. x / time_delta)) g
       in Inr (if guassian_filter then gaussian_filter1d velocity 2 else velocity))"

text \<open>\<^verbatim>\<open>np.linalg.norm(v, axis=-1)\<close> and the constant \<^verbatim>\<open>1e-8\<close>.\<close>

definition norm2 :: "vec \<Rightarrow> real" where
  "norm2 v = sqrt (\<Sum>x\<leftarrow>v. x * x)"

definition axis_eps :: real where
  "axis_eps = 1 / 10 ^ 8"

text \<open>
  \<^verbatim>\<open>compute_angular_velocity\<close> on a series \<open>r\<close> of 3x3 rotation matrices (every caller passes
  one matrix per frame). \<^verbatim>\<open>rotmat_to_aa\<close> comes from \<^verbatim>\<open>main/dataset/transform.py\<close>, which is
  not among the sources, and is a parameter. The steps before the smoothing are kept as
  \<open>angular_velocity_padded\<close>, the value of the source's variable \<^verbatim>\<open>angular_velocity\<close> after
  the concatenation.
\<close>

definition pair_angular_velocity :: "(mat \<Rightarrow> vec) \<Rightarrow> real \<Rightarrow> mat \<Rightarrow> mat \<Rightarrow> vec" where
  "pair_angular_velocity rotmat_to_aa time_delta r_next r_prev =
     (let diff_r = matmul 3 r_next (transpose_m 3 r_prev);
          diff_aa = rotmat_to_aa diff_r;
          diff_angle = norm2 diff_aa;
          diff_axis = map (\<lambda>x. x / (diff_angle + axis_eps)) diff_aa
      in map (\<lambda>x. x * diff_angle / time_delta) diff_axis)"

definition angular_velocity_padded :: "(mat \<Rightarrow> vec) \<Rightarrow> mat list \<Rightarrow> real \<Rightarrow> mat" where
  "angular_velocity_padded rotmat_to_aa r time_delta =
     (let angular_velocity = map2 (pair_angular_velocity rotmat_to_aa time_delta) (tl r) (butlast r)
      in angular_velocity @ drop (length angular_velocity - 1) angular_velocity)"

definition compute_angular_velocity :: "(mat \<Rightarrow> vec) \<Rightarrow> mat list \<Rightarrow> real \<Rightarrow> bool \<Rightarrow> mat" where
  "compute_angular_velocity rotmat_to_aa r time_delta guassian_filter =
     (let angular_velocity = angular_velocity_padded rotmat_to_aa r time_delta
      in if guassian_filter then gaussian_filter1d angular_velocity 2 else angular_velocity)"

section \<open>Rotation conversions\<close>

record transform_library =
  rotmat_to_aa :: "mat \<Rightarrow> vec"
  aa_to_rotmat :: "vec \<Rightarrow> mat"

definition I3 :: mat where
  "I3 = [[1, 0, 0], [0, 1, 0], [0, 0, 1]]"

text \<open>
  Modelled from the spec: \<^verbatim>\<open>main/dataset/transform.py\<close> (\<^verbatim>\<open>rotmat_to_aa\<close>, \<^verbatim>\<open>aa_to_rotmat\<close>) is
  not among the sources. The spec's glossary fixes the axis-angle vector of a rotation as
  the rotation axis scaled by the rotation angle. For a rotation by an angle \<open>\<theta>\<close> strictly
  between 0 and \<open>\<pi>\<close> that is \<open>\<theta> / (2 sin \<theta>)\<close> times the vector of the antisymmetric part, with
  \<open>\<theta> = arccos ((trace R - 1) / 2)\<close>; the identity has the zero vector. At a half turn the
  axis is determined only up to its sign; this definition returns the zero vector there
  and nothing below evaluates it at a half turn. The general theorems hold for every
  transform library; this one serves concrete evaluation.
\<close>

definition rotmat_to_aa_ref :: "mat \<Rightarrow> vec" where
  "rotmat_to_aa_ref R =
     (let \<theta> = arccos ((R ! 0 ! 0 + R ! 1 ! 1 + R ! 2 ! 2 - 1) / 2);
          w = [R ! 2 ! 1 - R ! 1 ! 2, R ! 0 ! 2 - R ! 2 ! 0, R ! 1 ! 0 - R ! 0 ! 1]
      in if sin \<theta> = 0 then [0, 0, 0] else map (\<lambda>x. \<theta> / (2 * sin \<theta>) * x) w)"

text \<open>Modelled from the spec: the inverse conversion, by Rodrigues' formula.\<close>

definition aa_to_rotmat_ref :: "vec \<Rightarrow> mat" where
  "aa_to_rotmat_ref v =
     (let \<theta> = norm2 v
      in if \<theta> = 0 then I3
         else (let x = v ! 0 / \<theta>; y = v ! 1 / \<theta>; z = v ! 2 / \<theta>;
                   c = cos \<theta>; s = sin \<theta>; t = 1 - c
               in [[c + t * x * x, t * x * y - s * z, t * x * z + s * y],
                   [t * x * y + s * z, c + t * y * y, t * y * z - s * x],
                   [t * x * z - s * y, t * y * z + s * x, c + t * z * z]]))"

definition axis_angle_library :: transform_library where
  "axis_angle_library = \<lparr>rotmat_to_aa = rotmat_to_aa_ref, aa_to_rotmat = aa_to_rotmat_ref\<rparr>"

section \<open>Samples and the dataset object\<close>

text \<open>
  A Sample is a Python dict with a fixed set of keys, modelled as records; the two nested
  dicts keyed by joint name are association lists. The sample handed to \<^verbatim>\<open>process_data\<close>
  holds \<^verbatim>\<open>wrist_rot\<close> as rotation matrices of shape \<open>[T, 3, 3]\<close>; \<^verbatim>\<open>process_data\<close> replaces it by
  axis-angle vectors of shape \<open>[T, 3]\<close> and adds the derived fields, and
  \<^verbatim>\<open>load_retargeted_data\<close> adds the six \<^verbatim>\<open>opt_\<close> fields. The models are faithful on well-shaped
  input; shape errors that Torch or NumPy raise on ragged input are not modelled.
\<close>

record raw_sample =
  raw_obj_trajectory :: "mat list"
  raw_wrist_pos :: mat
  raw_wrist_rot :: "mat list"
  raw_mano_joints :: "(string \<times> mat) list"

record sample =
  obj_trajectory :: "mat list"
  wrist_pos :: mat
  wrist_rot :: mat
  mano_joints :: "(string \<times> mat) list"
  tips_distance :: mat
  obj_velocity :: mat
  obj_angular_velocity :: mat
  wrist_velocity :: mat
  wrist_angular_velocity :: mat
  mano_joints_velocity :: "(string \<times> mat) list"

record opt_sample = sample +
  opt_wrist_pos :: mat
  opt_wrist_rot :: mat
  opt_dof_pos :: mat
  opt_wrist_velocity :: mat
  opt_wrist_angular_velocity :: mat
  opt_dof_velocity :: mat

text \<open>The fields of \<^verbatim>\<open>ManipData\<close> that the two methods read; \<open>n_dofs\<close> is \<^verbatim>\<open>self.dexhand.n_dofs\<close>.\<close>

record manip_data =
  skip :: int
  mujoco2gym_transf :: mat
  max_seq_len :: int
  n_dofs :: nat
  verbose :: bool

datatype warning =
    SequenceTooLong nat nat int
  | RetargetedDataMissing string
  | SlowerTransfer
  | RunRetargetingFirst

text \<open>\<^verbatim>\<open>1 / (120 / self.skip)\<close>: Python raises ZeroDivisionError for \<open>skip = 0\<close>.\<close>

definition time_delta_of :: "manip_data \<Rightarrow> error + real" where
  "time_delta_of self =
     (if skip self = 0 then Inl ZeroDivisionError else Inr (1 / (120 / real_of_int (skip self))))"

definition lookup :: "('k \<times> 'v) list \<Rightarrow> 'k \<Rightarrow> error + 'v" where
  "lookup d k = (case map_of d k of None \<Rightarrow> Inl KeyError | Some v \<Rightarrow> Inr v)"

fun lookup_all :: "('k \<times> 'v) list \<Rightarrow> 'k list \<Rightarrow> error + 'v list" where
  "lookup_all d [] = Inr []"
| "lookup_all d (k # ks) =
     bindE (lookup d k) (\<lambda>v. bindE (lookup_all d ks) (\<lambda>vs. Inr (v # vs)))"

fun map_values_E :: "('v \<Rightarrow> error + 'w) \<Rightarrow> ('k \<times> 'v) list \<Rightarrow> error + ('k \<times> 'w) list" where
  "map_values_E f [] = Inr []"
| "map_values_E f ((k, v) # kvs) =
     bindE (f v) (\<lambda>w. bindE (map_values_E f kvs) (\<lambda>rest. Inr ((k, w) # rest)))"

definition map_values :: "('v \<Rightarrow> 'w) \<Rightarrow> ('k \<times> 'v) list \<Rightarrow> ('k \<times> 'w) list" where
  "map_values f d = map (\<lambda>(k, v). (k, f v)) d"

section \<open>Contact distance\<close>

definition tip_list :: "string list" where
  "tip_list = [''thumb_tip'', ''index_tip'', ''middle_tip'', ''ring_tip'', ''pinky_tip'']"

text \<open>\<^verbatim>\<open>torch.cat([x[:, None] for x in xs], dim=1)\<close>: frame \<open>t\<close> of the result lists frame \<open>t\<close>
  of every series.\<close>

definition cat_dim1 :: "mat list \<Rightarrow> mat list" where
  "cat_dim1 xs = map (\<lambda>t. map (\<lambda>x. x ! t) xs) [0..<length (hd xs)]"

text \<open>The first result of \<^verbatim>\<open>chamfer_distance.ChamferDistance\<close>: per frame and per point of
  the first set, the smallest squared distance to a point of the second set, found by a
  running minimum. On an empty second set the output buffer keeps its initial zeros.\<close>

definition sqdist :: "vec \<Rightarrow> vec \<Rightarrow> real" where
  "sqdist a b = (\<Sum>d\<leftarrow>vsub a b. d * d)"

definition nearest_sqdist :: "mat \<Rightarrow> vec \<Rightarrow> real" where
  "nearest_sqdist ys x = (case map (sqdist x) ys of [] \<Rightarrow> 0 | d # ds \<Rightarrow> fold min ds d)"

definition chamfer_dist1 :: "mat list \<Rightarrow> mat list \<Rightarrow> mat" where
  "chamfer_dist1 xyz1 xyz2 = map2 (\<lambda>xs ys. map (nearest_sqdist ys) xs) xyz1 xyz2"

section \<open>process_data\<close>

text \<open>The truncation block at the end of \<^verbatim>\<open>process_data\<close>, with the warning it prints; the
  warning's \<^verbatim>\<open>self.data_pathes[idx]\<close> is represented by the index. A tip joint missing from
  \<^verbatim>\<open>mano_joints\<close> raises KeyError, a frame skip of 0 ZeroDivisionError, and a series of fewer
  than two frames ValueError in \<^verbatim>\<open>np.gradient\<close>, in this order.\<close>

definition truncate_primary :: "manip_data \<Rightarrow> nat \<Rightarrow> sample \<Rightarrow> sample \<times> warning list" where
  "truncate_primary self idx d =
     (if int (length (obj_trajectory d)) > max_seq_len self
      then (let L = max_seq_len self
            in (d\<lparr>obj_trajectory := py_prefix L (obj_trajectory d),
                  obj_velocity := py_prefix L (obj_velocity d),
                  obj_angular_velocity := py_prefix L (obj_angular_velocity d),
                  wrist_pos := py_prefix L (wrist_pos d),
                  wrist_rot := py_prefix L (wrist_rot d),
                  mano_joints := map_values (py_prefix L) (mano_joints d),
                  wrist_velocity := py_prefix L (wrist_velocity d),
                  wrist_angular_velocity := py_prefix L (wrist_angular_velocity d),
                  mano_joints_velocity := map_values (py_prefix L) (mano_joints_velocity d),
                  tips_distance := py_prefix L (tips_distance d)\<rparr>,
                [SequenceTooLong idx (length (obj_trajectory d)) L]))
      else (d, []))"

definition process_data ::
  "transform_library \<Rightarrow> manip_data \<Rightarrow> raw_sample \<Rightarrow> nat \<Rightarrow> mat \<Rightarrow> error + sample \<times> warning list"
where
  "process_data tfl self data idx rs_verts_obj =
     (let F = mujoco2gym_transf self;
          obj_trajectory' = map (matmul 4 F) (raw_obj_trajectory data);
          wrist_pos' = rotate_translate (rot_block F) (transl_col F) (raw_wrist_pos data);
          wrist_rot' = map (\<lambda>M. rotmat_to_aa tfl (matmul 3 (rot_block F) M)) (raw_wrist_rot data);
          mano_joints' = map_values (rotate_translate (rot_block F) (transl_col F))
                           (raw_mano_joints data);
          obj_verts_transf = map (\<lambda>M. rotate_translate (rot_block M) (transl_col M) rs_verts_obj)
                               obj_trajectory'
      in bindE (lookup_all mano_joints' tip_list) (\<lambda>tip_series.
         let tips = cat_dim1 tip_series;
             tips_near = chamfer_dist1 tips obj_verts_transf;
             tips_distance' = map (map sqrt) tips_near
         in bindE (time_delta_of self) (\<lambda>dt.
            bindE (compute_velocity (map transl_col obj_trajectory') dt True) (\<lambda>obj_velocity'.
            let obj_angular_velocity' =
                  compute_angular_velocity (rotmat_to_aa tfl) (map rot_block obj_trajectory') dt True
            in bindE (compute_velocity wrist_pos' dt True) (\<lambda>wrist_velocity'.
            let wrist_angular_velocity' =
                  compute_angular_velocity (rotmat_to_aa tfl) (map (aa_to_rotmat tfl) wrist_rot') dt True
            in bindE (map_values_E (\<lambda>X. compute_velocity X dt True) mano_joints')
                 (\<lambda>mano_joints_velocity'.
            Inr (truncate_primary self idx
                  \<lparr>obj_trajectory = obj_trajectory',
                   wrist_pos = wrist_pos',
                   wrist_rot = wrist_rot',
                   mano_joints = mano_joints',
                   tips_distance = tips_distance',
                   obj_velocity = obj_velocity',
                   obj_angular_velocity = obj_angular_velocity',
                   wrist_velocity = wrist_velocity',
                   wrist_angular_velocity = wrist_angular_velocity',
                   mano_joints_velocity = mano_joints_velocity'\<rparr>)))))))"

section \<open>load_retargeted_data\<close>

text \<open>The pickled artifact with its three arrays; the file system is a partial map from
  paths to artifacts, so \<^verbatim>\<open>os.path.exists\<close> is definedness.\<close>

record opt_params =
  params_opt_wrist_pos :: mat
  params_opt_wrist_rot :: mat
  params_opt_dof_pos :: mat

text \<open>The two branches on the artifact: the three \<^verbatim>\<open>opt_\<close> arrays that \<^verbatim>\<open>data.update\<close> stores,
  and what the branch prints.\<close>

definition retargeted_bundle ::
  "manip_data \<Rightarrow> (string \<Rightarrow> opt_params option) \<Rightarrow> sample \<Rightarrow> string \<Rightarrow> (mat \<times> mat \<times> mat) \<times> warning list"
where
  "retargeted_bundle self fs data retargeted_data_path =
     (case fs retargeted_data_path of
        None \<Rightarrow>
          ((wrist_pos data, wrist_rot data,
            replicate (length (wrist_pos data)) (replicate (n_dofs self) 0)),
           (if verbose self
            then [RetargetedDataMissing retargeted_data_path, SlowerTransfer, RunRetargetingFirst]
            else []))
      | Some opt_params \<Rightarrow>
          ((params_opt_wrist_pos opt_params, params_opt_wrist_rot opt_params,
            params_opt_dof_pos opt_params), []))"

text \<open>The printed lines are returned beside the result, also when the call raises later.
  The final \<^verbatim>\<open>assert\<close> is modelled as always checked (Python run without \<^verbatim>\<open>-O\<close>).\<close>

definition load_retargeted_data ::
  "transform_library \<Rightarrow> manip_data \<Rightarrow> (string \<Rightarrow> opt_params option) \<Rightarrow> sample \<Rightarrow> string
     \<Rightarrow> (error + opt_sample) \<times> warning list"
where
  "load_retargeted_data tfl self fs data retargeted_data_path =
     (case retargeted_bundle self fs data retargeted_data_path of
        ((pos, rot, dof), printed) \<Rightarrow>
          (bindE (time_delta_of self) (\<lambda>dt.
           bindE (compute_velocity pos dt True) (\<lambda>vel.
           let ang = compute_angular_velocity (rotmat_to_aa tfl) (map (aa_to_rotmat tfl) rot) dt True
           in bindE (compute_dof_velocity dof dt True) (\<lambda>dof_vel.
           let L = max_seq_len self;
               cut = (\<lambda>x. if int (length pos) > L then py_prefix L x else x)
           in if length (cut pos) = length (obj_trajectory data)
              then Inr (sample.extend data
                          (opt_sample.fields (cut pos) (cut rot) (cut dof)
                             (cut vel) (cut ang) (cut dof_vel)))
              else Inl AssertionError))),
           printed))"

section \<open>A concrete sample\<close>

text \<open>Three frames of an object moving along the x axis, a hand whose joints move with it,
  a remapping by a quarter turn about the z axis with a shift along x, and a bound of two
  frames.\<close>

definition demo_transf :: mat where
  "demo_transf = [[0, -1, 0, 1], [1, 0, 0, 0], [0, 0, 1, 0], [0, 0, 0, 1]]"

definition demo_self :: manip_data where
  "demo_self = \<lparr>skip = 2, mujoco2gym_transf = demo_transf, max_seq_len = 2, n_dofs = 2, verbose = True\<rparr>"

definition demo_pose :: "real \<Rightarrow> mat" where
  "demo_pose x = [[1, 0, 0, x], [0, 1, 0, 0], [0, 0, 1, 0], [0, 0, 0, 1]]"

definition demo_line :: mat where
  "demo_line = [[0, 0, 0], [1, 0, 0], [2, 0, 0]]"

definition demo_raw :: raw_sample where
  "demo_raw =
     \<lparr>raw_obj_trajectory = [demo_pose 0, demo_pose 1, demo_pose 2],
      raw_wrist_pos = demo_line,
      raw_wrist_rot = [I3, I3, I3],
      raw_mano_joints = [(''wrist'', demo_line), (''thumb_tip'', demo_line), (''index_tip'', demo_line),
                         (''middle_tip'', demo_line), (''ring_tip'', demo_line), (''pinky_tip'', demo_line)]\<rparr>"

definition demo_cloud :: mat where
  "demo_cloud = [[0, 0, 0], [0, 3, 4]]"

text \<open>A processed sample of two frames, an artifact of three frames stored under one path,
  and no artifact under any other path.\<close>

definition demo_sample :: sample where
  "demo_sample =
     \<lparr>obj_trajectory = [demo_pose 0, demo_pose 1],
      wrist_pos = [[1, 0, 0], [1, 1, 0]],
      wrist_rot = [[0, 0, 0], [0, 0, 0]],
      mano_joints = [(''thumb_tip'', [[1, 0, 0], [1, 1, 0]])],
      tips_distance = [[0], [0]],
      obj_velocity = [[60, 0, 0], [60, 0, 0]],
      obj_angular_velocity = [[0, 0, 0], [0, 0, 0]],
      wrist_velocity = [[0, 60, 0], [0, 60, 0]],
      wrist_angular_velocity = [[0, 0, 0], [0, 0, 0]],
      mano_joints_velocity = [(''thumb_tip'', [[0, 60, 0], [0, 60, 0]])]\<rparr>"

definition demo_params :: opt_params where
  "demo_params =
     \<lparr>params_opt_wrist_pos = [[1, 0, 0], [1, 1, 0], [1, 2, 0]],
      params_opt_wrist_rot = [[0, 0, 0], [0, 0, 0], [0, 0, 0]],
      params_opt_dof_pos = [[0, 1], [0, 2], [0, 3]]\<rparr>"

definition demo_fs :: "string \<Rightarrow> opt_params option" where
  "demo_fs = (\<lambda>_. None)(''retargeted.pkl'' := Some demo_params)"

text \<open>A rotation series of three frames: the identity, a quarter turn about z, then a further
  quarter turn about x; and the angular rate that \<^verbatim>\<open>compute_angular_velocity\<close> assigns to a
  quarter turn per frame.\<close>

definition quarter_turn_z :: mat where
  "quarter_turn_z = [[0, -1, 0], [1, 0, 0], [0, 0, 1]]"

definition quarter_turn_x :: mat where
  "quarter_turn_x = [[1, 0, 0], [0, 0, -1], [0, 1, 0]]"

definition demo_rotations :: "mat list" where
  "demo_rotations = [I3, quarter_turn_z, matmul 3 quarter_turn_x quarter_turn_z]"

definition quarter_turn_rate :: "real \<Rightarrow> real" where
  "quarter_turn_rate dt = pi / 2 / (pi / 2 + axis_eps) * (pi / 2) / dt"

section \<open>Properties of the surface sampler\<close>

lemma random_sampling_pc_unfold:
  "random_sampling_pc lib mesh g =
     (case sample_points_from_meshes lib mesh 1000 (seeded_rngs lib) of
        (pts, np', cpu', cuda') \<Rightarrow>
          (pts, g\<lparr>np_random_state := np_random_state g,
                  torch_cpu_state := torch_cpu_state g,
                  torch_cuda_state := cuda'(cuda_current_device g :=
                                              torch_cuda_state g (cuda_current_device g)),
                  cudnn_deterministic := True,
                  cudnn_benchmark := False\<rparr>))"
  by (simp add: random_sampling_pc_def draw_points_def np_random_seed_def torch_manual_seed_def
      torch_cuda_manual_seed_def torch_cuda_manual_seed_all_def torch_cuda_get_rng_state_def
      torch_cuda_set_rng_state_def seeded_rngs_def Let_def split: prod.splits)

lemma random_sampling_pc_restores_saved:
  "np_random_state (snd (random_sampling_pc lib mesh g)) = np_random_state g"
  "torch_cpu_state (snd (random_sampling_pc lib mesh g)) = torch_cpu_state g"
  "torch_cuda_state (snd (random_sampling_pc lib mesh g)) (cuda_current_device g)
     = torch_cuda_state g (cuda_current_device g)"
  "cuda_current_device (snd (random_sampling_pc lib mesh g)) = cuda_current_device g"
  by (simp_all add: random_sampling_pc_unfold split: prod.splits)

lemma random_sampling_pc_other_devices:
  "d \<noteq> cuda_current_device g \<Longrightarrow>
     torch_cuda_state (snd (random_sampling_pc lib mesh g)) d
       = snd (snd (snd (sample_points_from_meshes lib mesh 1000 (seeded_rngs lib)))) d"
  by (simp add: random_sampling_pc_unfold split: prod.splits)

text \<open>
  C10. Every call of \<^verbatim>\<open>random_sampling_pc\<close> leaves \<^verbatim>\<open>torch.backends.cudnn.deterministic\<close>
  set to True and \<^verbatim>\<open>torch.backends.cudnn.benchmark\<close> set to False, whatever the two flags
  were before the call: they are written before the draw and not among the values that are
  put back afterwards.
\<close>

theorem random_sampling_pc_cudnn_flags:
  "cudnn_deterministic (snd (random_sampling_pc lib mesh g)) = True \<and>
   cudnn_benchmark (snd (random_sampling_pc lib mesh g)) = False"
  by (simp add: random_sampling_pc_unfold split: prod.splits)

text \<open>
  C7. For a fixed mesh the sampled cloud does not depend on the ambient state: the draw is
  made from the generators seeded with the constant 0, so two calls (from any two ambient
  states, in particular one call after the other) return the same cloud, and the cloud has
  1000 points when the sampler returns as many points as it is asked for.
\<close>

theorem random_sampling_pc_deterministic:
  assumes "\<forall>s. length (fst (sample_points_from_meshes lib mesh 1000 s)) = 1000"
  shows "fst (random_sampling_pc lib mesh g) = fst (random_sampling_pc lib mesh g') \<and>
         fst (random_sampling_pc lib mesh (snd (random_sampling_pc lib mesh g)))
           = fst (random_sampling_pc lib mesh g) \<and>
         length (fst (random_sampling_pc lib mesh g)) = 1000"
  using assms [rule_format, of "seeded_rngs lib"]
  by (auto simp add: random_sampling_pc_unfold split: prod.splits)

lemma demo_sampler_length:
  "length (fst (sample_points_from_meshes demo_library m n s)) = n"
  by (cases s) (simp add: demo_library_def split: prod.splits)

theorem random_sampling_pc_deterministic_witness:
  "(\<forall>s. length (fst (sample_points_from_meshes demo_library () 1000 s)) = 1000) \<and>
   fst (random_sampling_pc demo_library () demo_globals)
     = fst (random_sampling_pc demo_library () (demo_globals\<lparr>torch_cpu_state := [5]\<rparr>)) \<and>
   length (fst (random_sampling_pc demo_library () demo_globals)) = 1000"
proof -
  have h: "\<forall>s. length (fst (sample_points_from_meshes demo_library () 1000 s)) = 1000"
    by (simp add: demo_sampler_length)
  from random_sampling_pc_deterministic [OF h, of demo_globals "demo_globals\<lparr>torch_cpu_state := [5]\<rparr>"] h
  show ?thesis by blast
qed

text \<open>
  C4. The call puts back the NumPy state, the Torch CPU state and the state of the current
  CUDA device (\<open>random_sampling_pc_restores_saved\<close>). The generators of the other CUDA
  devices are reseeded by \<^verbatim>\<open>torch.manual_seed\<close> and \<^verbatim>\<open>torch.cuda.manual_seed_all\<close> but neither
  saved nor restored: in a process with a second device whose generator was in state
  \<open>[34]\<close>, that generator is in the seed-0 state \<open>[0]\<close> after the call.
\<close>

theorem random_sampling_pc_leaves_other_cuda_device_reseeded:
  "cuda_current_device demo_globals = 0 \<and>
   torch_cuda_state demo_globals 1 = [34] \<and>
   torch_cuda_state (snd (random_sampling_pc demo_library () demo_globals)) 1 = [0]"
  by (simp add: random_sampling_pc_unfold seeded_rngs_def demo_library_def demo_globals_def)

section \<open>Lengths of the derived series\<close>

lemma bindE_Inr_iff: "bindE m f = Inr y \<longleftrightarrow> (\<exists>x. m = Inr x \<and> f x = Inr y)"
  by (cases m) (simp_all add: bindE_def)

lemma bindE_Inr [simp]: "bindE (Inr x) f = f x"
  by (simp add: bindE_def)

lemma bindE_Inl [simp]: "bindE (Inl e) f = Inl e"
  by (simp add: bindE_def)

lemma length_py_prefix: "0 \<le> n \<Longrightarrow> length (py_prefix n xs) = min (length xs) (nat n)"
  by (simp add: py_prefix_def)

lemma length_py_prefix_le: "length (py_prefix n xs) \<le> length xs"
  by (simp add: py_prefix_def)

lemma py_prefix_nth: "t < length (py_prefix n xs) \<Longrightarrow> py_prefix n xs ! t = xs ! t"
  by (simp add: py_prefix_def split: if_splits)

lemma np_gradient_short: "length x < 2 \<Longrightarrow> np_gradient x = Inl ValueError"
  by (simp add: np_gradient_def)

lemma np_gradient_Inr_iff:
  "np_gradient x = Inr g \<Longrightarrow> 2 \<le> length x \<and> length g = length x"
  by (auto simp add: np_gradient_def Let_def split: if_splits)

lemma np_gradient_returns: "2 \<le> length x \<Longrightarrow> \<exists>g. np_gradient x = Inr g \<and> length g = length x"
  by (simp add: np_gradient_def Let_def)

lemma length_correlate1d_nearest [simp]: "length (correlate1d_nearest x w) = length x"
  by (simp add: correlate1d_nearest_def)

lemma length_gaussian_filter1d [simp]: "length (gaussian_filter1d x sigma) = length x"
  by (simp add: gaussian_filter1d_def)

lemma compute_velocity_short: "length p < 2 \<Longrightarrow> compute_velocity p dt f = Inl ValueError"
  by (simp add: compute_velocity_def np_gradient_short)

lemma compute_velocity_Inr:
  "compute_velocity p dt f = Inr v \<Longrightarrow> 2 \<le> length p \<and> length v = length p"
  by (auto simp add: compute_velocity_def bindE_Inr_iff Let_def dest!: np_gradient_Inr_iff)

lemma compute_velocity_returns:
  "2 \<le> length p \<Longrightarrow> \<exists>v. compute_velocity p dt f = Inr v \<and> length v = length p"
  using np_gradient_returns [of p] by (auto simp add: compute_velocity_def Let_def)

lemma compute_dof_velocity_eq: "compute_dof_velocity = compute_velocity"
  by (simp add: fun_eq_iff compute_dof_velocity_def compute_velocity_def)

lemma length_angular_velocity_padded:
  "length (angular_velocity_padded aa r dt) = (if length r < 2 then 0 else length r)"
  by (auto simp add: angular_velocity_padded_def Let_def)

lemma length_compute_angular_velocity:
  "length (compute_angular_velocity aa r dt f) = (if length r < 2 then 0 else length r)"
  using length_angular_velocity_padded [of aa r dt]
  by (simp add: compute_angular_velocity_def Let_def del: length_0_conv)

lemma length_rotate_translate [simp]: "length (rotate_translate R p X) = length X"
  by (simp add: rotate_translate_def transpose_m_def)

lemma column_transpose_m:
  "t < length X \<Longrightarrow> column (transpose_m c X) t = map (\<lambda>j. X ! t ! j) [0..<c]"
  by (simp add: column_def transpose_m_def)

lemma map_nth_upt_eq: "length v = c \<Longrightarrow> map (\<lambda>j. v ! j) [0..<c] = v"
  by (auto simp add: map_nth)

lemma rotate_translate_nth:
  assumes "t < length X" and "length (X ! t) = 3"
  shows "rotate_translate R p X ! t = vadd (mv R (X ! t)) p"
proof -
  have "column (transpose_m 3 X) t = X ! t"
    using assms by (simp add: column_transpose_m map_nth_upt_eq)
  then show ?thesis
    using assms(1)
    by (simp add: rotate_translate_def transpose_m_def matmul_def mv_def column_def o_def)
qed

section \<open>Results of process_data\<close>

lemma map_of_map_values: "map_of (map_values f d) k = map_option f (map_of d k)"
  by (induction d) (auto simp add: map_values_def)

lemma snd_set_map_values: "snd ` set (map_values f d) = f ` snd ` set d"
  by (force simp add: map_values_def image_iff)

lemma lookup_all_Inr:
  "lookup_all d ks = Inr vs \<Longrightarrow> length vs = length ks \<and> (\<forall>i<length ks. map_of d (ks ! i) = Some (vs ! i))"
proof (induction ks arbitrary: vs)
  case Nil
  then show ?case by simp
next
  case (Cons k ks)
  from Cons.prems obtain v vs' where v: "lookup d k = Inr v" and vs': "lookup_all d ks = Inr vs'"
    and eq: "vs = v # vs'"
    by (auto simp add: bindE_Inr_iff)
  from v have "map_of d k = Some v" by (simp add: lookup_def split: option.splits)
  with Cons.IH [OF vs'] eq show ?case by (auto simp add: nth_Cons split: nat.splits)

qed

lemma lookup_all_returns:
  "\<forall>k\<in>set ks. map_of d k \<noteq> None \<Longrightarrow> \<exists>vs. lookup_all d ks = Inr vs"
  by (induction ks) (auto simp add: lookup_def split: option.splits)

lemma map_values_E_Inr:
  "map_values_E f d = Inr d' \<Longrightarrow>
     length d' = length d \<and> (\<forall>i<length d. fst (d' ! i) = fst (d ! i) \<and> f (snd (d ! i)) = Inr (snd (d' ! i)))"
proof (induction d arbitrary: d')
  case Nil
  then show ?case by simp
next
  case (Cons kv d)
  obtain k v where kv: "kv = (k, v)" by (cases kv)
  from Cons.prems kv obtain w rest where w: "f v = Inr w" and rest: "map_values_E f d = Inr rest"
    and eq: "d' = (k, w) # rest"
    by (auto simp add: bindE_Inr_iff)
  with Cons.IH [OF rest] kv show ?case by (auto simp add: nth_Cons split: nat.splits)
qed

lemma map_values_E_returns:
  "\<forall>v\<in>snd ` set d. \<exists>w. f v = Inr w \<Longrightarrow> \<exists>d'. map_values_E f d = Inr d'"
proof (induction d)
  case Nil
  then show ?case by simp
next
  case (Cons kv d)
  obtain k v where kv: "kv = (k, v)" by (cases kv)
  from Cons.prems kv obtain w where w: "f v = Inr w" by auto
  from Cons obtain d' where "map_values_E f d = Inr d'" by auto
  with w kv show ?case by simp
qed

text \<open>The sample before the truncation.\<close>

lemma process_data_Inr:
  assumes "process_data tfl self data idx rs_verts_obj = Inr (d, printed)"
  obtains tip_series dt ov wv mjv where
    "lookup_all (map_values (rotate_translate (rot_block (mujoco2gym_transf self))
        (transl_col (mujoco2gym_transf self))) (raw_mano_joints data)) tip_list = Inr tip_series"
    "time_delta_of self = Inr dt"
    "compute_velocity (map transl_col (map (matmul 4 (mujoco2gym_transf self)) (raw_obj_trajectory data))) dt True = Inr ov"
    "compute_velocity (rotate_translate (rot_block (mujoco2gym_transf self))
        (transl_col (mujoco2gym_transf self)) (raw_wrist_pos data)) dt True = Inr wv"
    "map_values_E (\<lambda>X. compute_velocity X dt True)
        (map_values (rotate_translate (rot_block (mujoco2gym_transf self))
        (transl_col (mujoco2gym_transf self))) (raw_mano_joints data)) = Inr mjv"
    "truncate_primary self idx
       \<lparr>obj_trajectory = map (matmul 4 (mujoco2gym_transf self)) (raw_obj_trajectory data),
        wrist_pos = rotate_translate (rot_block (mujoco2gym_transf self))
                      (transl_col (mujoco2gym_transf self)) (raw_wrist_pos data),
        wrist_rot = map (\<lambda>M. rotmat_to_aa tfl (matmul 3 (rot_block (mujoco2gym_transf self)) M))
                      (raw_wrist_rot data),
        mano_joints = map_values (rotate_translate (rot_block (mujoco2gym_transf self))
                        (transl_col (mujoco2gym_transf self))) (raw_mano_joints data),
        tips_distance = map (map sqrt) (chamfer_dist1 (cat_dim1 tip_series)
           (map (\<lambda>M. rotate_translate (rot_block M) (transl_col M) rs_verts_obj)
              (map (matmul 4 (mujoco2gym_transf self)) (raw_obj_trajectory data)))),
        obj_velocity = ov,
        obj_angular_velocity = compute_angular_velocity (rotmat_to_aa tfl)
           (map rot_block (map (matmul 4 (mujoco2gym_transf self)) (raw_obj_trajectory data))) dt True,
        wrist_velocity = wv,
        wrist_angular_velocity = compute_angular_velocity (rotmat_to_aa tfl)
           (map (aa_to_rotmat tfl) (map (\<lambda>M. rotmat_to_aa tfl (matmul 3 (rot_block (mujoco2gym_transf self)) M))
                      (raw_wrist_rot data))) dt True,
        mano_joints_velocity = mjv\<rparr> = (d, printed)"
  using assms unfolding process_data_def Let_def bindE_Inr_iff sum.inject
  by (elim exE conjE) (rule that; assumption)


lemma truncate_primary_fields:
  assumes "truncate_primary self idx pre = (d, printed)"
    and "long = (int (length (obj_trajectory pre)) > max_seq_len self)"
  shows "obj_trajectory d = clip long (max_seq_len self) (obj_trajectory pre)"
    and "wrist_pos d = clip long (max_seq_len self) (wrist_pos pre)"
    and "wrist_rot d = clip long (max_seq_len self) (wrist_rot pre)"
    and "tips_distance d = clip long (max_seq_len self) (tips_distance pre)"
    and "obj_velocity d = clip long (max_seq_len self) (obj_velocity pre)"
    and "obj_angular_velocity d = clip long (max_seq_len self) (obj_angular_velocity pre)"
    and "wrist_velocity d = clip long (max_seq_len self) (wrist_velocity pre)"
    and "wrist_angular_velocity d = clip long (max_seq_len self) (wrist_angular_velocity pre)"
    and "mano_joints d = map_values (clip long (max_seq_len self)) (mano_joints pre)"
    and "mano_joints_velocity d = map_values (clip long (max_seq_len self)) (mano_joints_velocity pre)"
    and "printed = (if long then [SequenceTooLong idx (length (obj_trajectory pre)) (max_seq_len self)] else [])"
  using assms
  by (auto simp add: truncate_primary_def Let_def map_values_def clip_def split: if_splits)

lemma length_clip:
  assumes "0 \<le> L" and "length x = T"
  shows "length (clip (int T > L) L x) = min T (nat L)"
  using assms by (auto simp add: length_py_prefix clip_def)

lemma process_data_returns:
  assumes skip: "skip self \<noteq> 0"
    and traj: "2 \<le> length (raw_obj_trajectory data)"
    and pos: "2 \<le> length (raw_wrist_pos data)"
    and joints: "\<forall>X\<in>snd ` set (raw_mano_joints data). 2 \<le> length X"
    and tips: "\<forall>k\<in>set tip_list. map_of (raw_mano_joints data) k \<noteq> None"
  shows "\<exists>d printed. process_data tfl self data idx rs_verts_obj = Inr (d, printed)"
proof -
  define F where "F = mujoco2gym_transf self"
  define joints' where "joints' = map_values (rotate_translate (rot_block F) (transl_col F)) (raw_mano_joints data)"
  from tips have "\<forall>k\<in>set tip_list. map_of joints' k \<noteq> None"
    by (simp add: joints'_def map_of_map_values)
  then obtain tip_series where 1: "lookup_all joints' tip_list = Inr tip_series"
    using lookup_all_returns by blast
  define dt where "dt = 1 / (120 / real_of_int (skip self))"
  from skip have 2: "time_delta_of self = Inr dt"
    by (simp add: time_delta_of_def dt_def)
  from traj obtain ov where
    3: "compute_velocity (map transl_col (map (matmul 4 F) (raw_obj_trajectory data))) dt True = Inr ov"
    using compute_velocity_returns [of "map transl_col (map (matmul 4 F) (raw_obj_trajectory data))" dt True]
    by auto
  from pos obtain wv where
    4: "compute_velocity (rotate_translate (rot_block F) (transl_col F) (raw_wrist_pos data)) dt True = Inr wv"
    using compute_velocity_returns [of "rotate_translate (rot_block F) (transl_col F) (raw_wrist_pos data)" dt True]
    by auto
  have "\<forall>X\<in>snd ` set joints'. \<exists>w. compute_velocity X dt True = Inr w"
  proof
    fix X assume "X \<in> snd ` set joints'"
    with joints have "2 \<le> length X" by (auto simp add: joints'_def snd_set_map_values)
    then show "\<exists>w. compute_velocity X dt True = Inr w"
      using compute_velocity_returns by blast
  qed
  then obtain mjv where 5: "map_values_E (\<lambda>X. compute_velocity X dt True) joints' = Inr mjv"
    using map_values_E_returns [of joints' "\<lambda>X. compute_velocity X dt True"] by blast
  show ?thesis
    unfolding process_data_def Let_def
    using 1 2 3 4 5 unfolding F_def joints'_def
    by (simp add: prod_eq_iff)
qed

lemma demo_returns:
  "\<exists>d printed. process_data axis_angle_library demo_self demo_raw 0 demo_cloud = Inr (d, printed)"
  by (rule process_data_returns)
    (simp_all add: demo_self_def demo_raw_def demo_line_def tip_list_def)


lemma process_data_lengths:
  assumes ret: "process_data tfl self data idx rs_verts_obj = Inr (d, printed)"
    and traj: "length (raw_obj_trajectory data) = T"
    and pos: "length (raw_wrist_pos data) = T"
    and rot: "length (raw_wrist_rot data) = T"
    and joints: "\<forall>X\<in>snd ` set (raw_mano_joints data). length X = T"
    and L: "0 \<le> max_seq_len self"
  shows "length (obj_trajectory d) = min T (nat (max_seq_len self)) \<and>
         length (wrist_pos d) = min T (nat (max_seq_len self)) \<and>
         length (wrist_rot d) = min T (nat (max_seq_len self)) \<and>
         (\<forall>X\<in>snd ` set (mano_joints d). length X = min T (nat (max_seq_len self))) \<and>
         (\<forall>V\<in>snd ` set (mano_joints_velocity d). length V = min T (nat (max_seq_len self))) \<and>
         length (obj_velocity d) = min T (nat (max_seq_len self)) \<and>
         length (obj_angular_velocity d) = min T (nat (max_seq_len self)) \<and>
         length (wrist_velocity d) = min T (nat (max_seq_len self)) \<and>
         length (wrist_angular_velocity d) = min T (nat (max_seq_len self)) \<and>
         length (tips_distance d) = min T (nat (max_seq_len self))"
proof -
  define F where "F = mujoco2gym_transf self"
  define joints' where "joints' = map_values (rotate_translate (rot_block F) (transl_col F)) (raw_mano_joints data)"
  from ret obtain tip_series dt ov wv mjv pre where
    tips: "lookup_all joints' tip_list = Inr tip_series"
    and ov: "compute_velocity (map transl_col (map (matmul 4 F) (raw_obj_trajectory data))) dt True = Inr ov"
    and wv: "compute_velocity (rotate_translate (rot_block F) (transl_col F) (raw_wrist_pos data)) dt True = Inr wv"
    and mjv: "map_values_E (\<lambda>X. compute_velocity X dt True) joints' = Inr mjv"
    and pre: "pre = \<lparr>obj_trajectory = map (matmul 4 F) (raw_obj_trajectory data),
        wrist_pos = rotate_translate (rot_block F) (transl_col F) (raw_wrist_pos data),
        wrist_rot = map (\<lambda>M. rotmat_to_aa tfl (matmul 3 (rot_block F) M)) (raw_wrist_rot data),
        mano_joints = joints',
        tips_distance = map (map sqrt) (chamfer_dist1 (cat_dim1 tip_series)
           (map (\<lambda>M. rotate_translate (rot_block M) (transl_col M) rs_verts_obj)
              (map (matmul 4 F) (raw_obj_trajectory data)))),
        obj_velocity = ov,
        obj_angular_velocity = compute_angular_velocity (rotmat_to_aa tfl)
           (map rot_block (map (matmul 4 F) (raw_obj_trajectory data))) dt True,
        wrist_velocity = wv,
        wrist_angular_velocity = compute_angular_velocity (rotmat_to_aa tfl)
           (map (aa_to_rotmat tfl) (map (\<lambda>M. rotmat_to_aa tfl (matmul 3 (rot_block F) M))
                      (raw_wrist_rot data))) dt True,
        mano_joints_velocity = mjv\<rparr>"
    and trunc: "truncate_primary self idx pre = (d, printed)"
    unfolding F_def joints'_def by (rule process_data_Inr) blast
  let ?n = "min T (nat (max_seq_len self))"
  have T2: "2 \<le> T"
    using compute_velocity_Inr [OF ov] traj by simp
  have len_pre: "length (obj_trajectory pre) = T"
    using traj by (simp add: pre)
  note fields = truncate_primary_fields [OF trunc refl, unfolded len_pre]
  have joints'_len: "\<forall>X\<in>snd ` set joints'. length X = T"
    using joints by (auto simp add: joints'_def snd_set_map_values)
  have mjv_len: "\<forall>V\<in>snd ` set mjv. length V = T"
  proof
    fix V assume "V \<in> snd ` set mjv"
    then obtain i where i: "i < length mjv" and V: "V = snd (mjv ! i)"
      by (auto simp add: in_set_conv_nth)
    from map_values_E_Inr [OF mjv] i
    have "compute_velocity (snd (joints' ! i)) dt True = Inr V" and "i < length joints'"
      by (auto simp add: V)
    moreover from \<open>i < length joints'\<close> joints'_len have "length (snd (joints' ! i)) = T"
      by simp
    ultimately show "length V = T"
      using compute_velocity_Inr [of "snd (joints' ! i)" dt True V] by simp
  qed
  have tip_len: "length (cat_dim1 tip_series) = T"
  proof -
    have five: "length tip_list = 5" by (simp add: tip_list_def)
    from lookup_all_Inr [OF tips] five have "length tip_series = 5"
      and "map_of joints' (tip_list ! 0) = Some (tip_series ! 0)"
      by simp_all
    then have "hd tip_series \<in> snd ` set joints'"
      by (cases tip_series) (force dest!: map_of_SomeD simp add: image_iff)+
    with joints'_len have "length (hd tip_series) = T" by blast
    then show ?thesis by (simp add: cat_dim1_def)
  qed
  have 1: "length (obj_trajectory d) = ?n"
    using length_clip [OF L len_pre] by (simp add: fields(1))
  have 2: "length (wrist_pos d) = ?n"
    using length_clip [OF L, of "wrist_pos pre" T] pos by (simp add: fields(2) pre)
  have 3: "length (wrist_rot d) = ?n"
    using length_clip [OF L, of "wrist_rot pre" T] rot by (simp add: fields(3) pre)
  have 4: "length (tips_distance d) = ?n"
    using length_clip [OF L, of "tips_distance pre" T] tip_len traj
    by (simp add: fields(4) pre chamfer_dist1_def)
  have 5: "length (obj_velocity d) = ?n"
    using length_clip [OF L, of "obj_velocity pre" T] compute_velocity_Inr [OF ov] traj
    by (simp add: fields(5) pre)
  have 6: "length (obj_angular_velocity d) = ?n"
    using length_clip [OF L, of "obj_angular_velocity pre" T] T2 traj
    by (simp add: fields(6) pre length_compute_angular_velocity)
  have 7: "length (wrist_velocity d) = ?n"
    using length_clip [OF L, of "wrist_velocity pre" T] compute_velocity_Inr [OF wv] pos
    by (simp add: fields(7) pre)
  have 8: "length (wrist_angular_velocity d) = ?n"
    using length_clip [OF L, of "wrist_angular_velocity pre" T] T2 rot
    by (simp add: fields(8) pre length_compute_angular_velocity)
  have 9: "\<forall>X\<in>snd ` set (mano_joints d). length X = ?n"
  proof
    fix X assume "X \<in> snd ` set (mano_joints d)"
    then obtain Y where Y: "Y \<in> snd ` set joints'"
      and X: "X = clip (max_seq_len self < int T) (max_seq_len self) Y"
      by (auto simp add: fields(9) pre snd_set_map_values)
    from Y joints'_len have "length Y = T" by blast
    then show "length X = ?n" using length_clip [OF L, of Y T] by (simp add: X)
  qed
  have 10: "\<forall>V\<in>snd ` set (mano_joints_velocity d). length V = ?n"
  proof
    fix V assume "V \<in> snd ` set (mano_joints_velocity d)"
    then obtain W where W: "W \<in> snd ` set mjv"
      and V: "V = clip (max_seq_len self < int T) (max_seq_len self) W"
      by (auto simp add: fields(10) pre snd_set_map_values)
    from W mjv_len have "length W = T" by blast
    then show "length V = ?n" using length_clip [OF L, of W T] by (simp add: V)
  qed
  from 1 2 3 4 5 6 7 8 9 10 show ?thesis by blast
qed

text \<open>
  C2. On a sample whose primary per-frame fields share one length \<open>T\<close>, with a bound
  \<open>L = max_seq_len \<ge> 0\<close>, every per-frame field of the sample that \<^verbatim>\<open>process_data\<close> returns
  has length \<open>min T L\<close>: the trajectory, the wrist position and rotation, every entry of
  \<^verbatim>\<open>mano_joints\<close> and of \<^verbatim>\<open>mano_joints_velocity\<close>, the four velocity fields and
  \<^verbatim>\<open>tips_distance\<close>. In particular, when \<open>T\<close> exceeds \<open>L\<close> all of them are cut to \<open>L\<close> and none keeps
  its original length.
\<close>

theorem process_data_truncates_every_field:
  assumes ret: "process_data tfl self data idx rs_verts_obj = Inr (d, printed)"
    and traj: "length (raw_obj_trajectory data) = T"
    and pos: "length (raw_wrist_pos data) = T"
    and rot: "length (raw_wrist_rot data) = T"
    and joints: "\<forall>X\<in>snd ` set (raw_mano_joints data). length X = T"
    and L: "0 \<le> max_seq_len self"
  shows "length (obj_trajectory d) = min T (nat (max_seq_len self)) \<and>
         length (wrist_pos d) = min T (nat (max_seq_len self)) \<and>
         length (wrist_rot d) = min T (nat (max_seq_len self)) \<and>
         (\<forall>X\<in>snd ` set (mano_joints d). length X = min T (nat (max_seq_len self))) \<and>
         (\<forall>V\<in>snd ` set (mano_joints_velocity d). length V = min T (nat (max_seq_len self))) \<and>
         length (obj_velocity d) = min T (nat (max_seq_len self)) \<and>
         length (obj_angular_velocity d) = min T (nat (max_seq_len self)) \<and>
         length (wrist_velocity d) = min T (nat (max_seq_len self)) \<and>
         length (wrist_angular_velocity d) = min T (nat (max_seq_len self)) \<and>
         length (tips_distance d) = min T (nat (max_seq_len self))"
  using process_data_lengths [OF assms] .

theorem process_data_truncates_every_field_witness:
  "\<exists>d printed. process_data axis_angle_library demo_self demo_raw 0 demo_cloud = Inr (d, printed) \<and>
     length (obj_trajectory d) = 2 \<and> length (wrist_pos d) = 2 \<and> length (wrist_rot d) = 2 \<and>
     (\<forall>X\<in>snd ` set (mano_joints d). length X = 2) \<and>
     (\<forall>V\<in>snd ` set (mano_joints_velocity d). length V = 2) \<and>
     length (obj_velocity d) = 2 \<and> length (obj_angular_velocity d) = 2 \<and>
     length (wrist_velocity d) = 2 \<and> length (wrist_angular_velocity d) = 2 \<and>
     length (tips_distance d) = 2"
proof -
  from demo_returns obtain d printed where
    ret: "process_data axis_angle_library demo_self demo_raw 0 demo_cloud = Inr (d, printed)"
    by blast
  have "length (raw_obj_trajectory demo_raw) = 3" "length (raw_wrist_pos demo_raw) = 3"
    "length (raw_wrist_rot demo_raw) = 3" "\<forall>X\<in>snd ` set (raw_mano_joints demo_raw). length X = 3"
    "0 \<le> max_seq_len demo_self"
    by (simp_all add: demo_raw_def demo_line_def demo_self_def)
  from process_data_truncates_every_field [OF ret this] ret
  show ?thesis by (simp add: demo_self_def)
qed

section \<open>Frame remapping\<close>

lemma dot_sum:
  "length u = n \<Longrightarrow> length v = n \<Longrightarrow> dot u v = (\<Sum>k<n. u ! k * v ! k)"
  by (simp add: dot_def sum_list_sum_nth atLeast0LessThan)

lemma matmul_entry:
  assumes "i < length A" and "j < c" and "length (A ! i) = n" and "length B = n"
  shows "matmul c A B ! i ! j = (\<Sum>k<n. A ! i ! k * B ! k ! j)"
  using assms by (simp add: matmul_def dot_sum [of _ n] column_def)

lemma rigid_map_entry:
  assumes F: "length F = 4" "\<forall>row\<in>set F. length row = 4" and x: "length x = 3" and i: "i < 3"
  shows "vadd (mv (rot_block F) x) (transl_col F) ! i = (\<Sum>j<3. F ! i ! j * x ! j) + F ! i ! 3"
proof -
  from F i have row: "length (F ! i) = 4" by simp
  have "dot (take 3 (F ! i)) x = (\<Sum>j<3. take 3 (F ! i) ! j * x ! j)"
    using row x by (intro dot_sum) simp_all
  also have "\<dots> = (\<Sum>j<3. F ! i ! j * x ! j)"
    by (intro sum.cong) simp_all
  finally show ?thesis
    using F(1) i by (simp add: vadd_def mv_def rot_block_def transl_col_def column_def)
qed

lemma clip_nth: "t < length (clip b n xs) \<Longrightarrow> clip b n xs ! t = xs ! t"
  by (simp add: clip_def py_prefix_nth split: if_splits)

lemma length_clip_le: "length (clip b n xs) \<le> length xs"
  by (simp add: clip_def length_py_prefix_le)

lemma process_data_remapped_fields:
  assumes ret: "process_data tfl self data idx rs_verts_obj = Inr (d, printed)"
    and long: "long = (int (length (raw_obj_trajectory data)) > max_seq_len self)"
    and R: "R = rot_block (mujoco2gym_transf self)" and p: "p = transl_col (mujoco2gym_transf self)"
  shows "obj_trajectory d = clip long (max_seq_len self)
           (map (matmul 4 (mujoco2gym_transf self)) (raw_obj_trajectory data))"
    and "wrist_pos d = clip long (max_seq_len self) (rotate_translate R p (raw_wrist_pos data))"
    and "mano_joints d = map_values (clip long (max_seq_len self))
           (map_values (rotate_translate R p) (raw_mano_joints data))"
proof -
  from ret obtain tip_series dt ov wv mjv pre where
    pre_def: "pre = \<lparr>obj_trajectory = map (matmul 4 (mujoco2gym_transf self)) (raw_obj_trajectory data),
        wrist_pos = rotate_translate R p (raw_wrist_pos data),
        wrist_rot = map (\<lambda>M. rotmat_to_aa tfl (matmul 3 R M)) (raw_wrist_rot data),
        mano_joints = map_values (rotate_translate R p) (raw_mano_joints data),
        tips_distance = map (map sqrt) (chamfer_dist1 (cat_dim1 tip_series)
           (map (\<lambda>M. rotate_translate (rot_block M) (transl_col M) rs_verts_obj)
              (map (matmul 4 (mujoco2gym_transf self)) (raw_obj_trajectory data)))),
        obj_velocity = ov,
        obj_angular_velocity = compute_angular_velocity (rotmat_to_aa tfl)
           (map rot_block (map (matmul 4 (mujoco2gym_transf self)) (raw_obj_trajectory data))) dt True,
        wrist_velocity = wv,
        wrist_angular_velocity = compute_angular_velocity (rotmat_to_aa tfl)
           (map (aa_to_rotmat tfl) (map (\<lambda>M. rotmat_to_aa tfl (matmul 3 R M))
                      (raw_wrist_rot data))) dt True,
        mano_joints_velocity = mjv\<rparr>"
    and trunc: "truncate_primary self idx pre = (d, printed)"
    unfolding R p by (rule process_data_Inr) blast
  have "long = (int (length (obj_trajectory pre)) > max_seq_len self)"
    by (simp add: long pre_def)
  note fields = truncate_primary_fields [OF trunc this]
  show "obj_trajectory d = clip long (max_seq_len self)
           (map (matmul 4 (mujoco2gym_transf self)) (raw_obj_trajectory data))"
    by (simp add: fields(1) pre_def)
  show "wrist_pos d = clip long (max_seq_len self) (rotate_translate R p (raw_wrist_pos data))"
    by (simp add: fields(2) pre_def)
  show "mano_joints d = map_values (clip long (max_seq_len self))
           (map_values (rotate_translate R p) (raw_mano_joints data))"
    by (simp add: fields(9) pre_def)
qed

lemma demo_remap_line:
  "rotate_translate (rot_block demo_transf) (transl_col demo_transf) demo_line
     = [[1, 0, 0], [1, 1, 0], [1, 2, 0]]"
  by (simp add: rotate_translate_def transpose_m_def matmul_def column_def dot_def vadd_def
      rot_block_def transl_col_def demo_transf_def demo_line_def eval_nat_numeral)

lemma demo_remap_pose:
  "matmul 4 demo_transf (demo_pose x) = [[0, -1, 0, 1], [1, 0, 0, x], [0, 0, 1, 0], [0, 0, 0, 1]]"
  by (simp add: matmul_def column_def dot_def demo_transf_def demo_pose_def eval_nat_numeral)

lemma demo_fields:
  assumes "process_data axis_angle_library demo_self demo_raw 0 demo_cloud = Inr (d, printed)"
  shows "obj_trajectory d = [[[0, -1, 0, 1], [1, 0, 0, 0], [0, 0, 1, 0], [0, 0, 0, 1]],
                             [[0, -1, 0, 1], [1, 0, 0, 1], [0, 0, 1, 0], [0, 0, 0, 1]]]"
    and "wrist_pos d = [[1, 0, 0], [1, 1, 0]]"
    and "map_of (mano_joints d) k = (if k \<in> fst ` set (raw_mano_joints demo_raw) then Some [[1, 0, 0], [1, 1, 0]] else None)"
    and "mano_joints d ! 1 = (''thumb_tip'', [[1, 0, 0], [1, 1, 0]])"
  using process_data_remapped_fields [OF assms refl refl refl]
  by (simp_all add: demo_self_def demo_raw_def demo_remap_line demo_remap_pose clip_def py_prefix_def
      map_values_def)

lemma demo_shapes:
  "length (raw_obj_trajectory demo_raw) = 3" "length (raw_wrist_pos demo_raw) = 3"
  "length (raw_wrist_rot demo_raw) = 3" "\<forall>X\<in>snd ` set (raw_mano_joints demo_raw). length X = 3"
  "0 \<le> max_seq_len demo_self"
  "length (mujoco2gym_transf demo_self) = 4" "\<forall>row\<in>set (mujoco2gym_transf demo_self). length row = 4"
  "demo_cloud \<noteq> []" "\<forall>c\<in>set demo_cloud. length c = 3"
  "\<forall>k\<in>set tip_list. \<forall>X. map_of (raw_mano_joints demo_raw) k = Some X \<longrightarrow>
      length X = length (raw_obj_trajectory demo_raw)"
  by (simp_all add: demo_raw_def demo_line_def demo_self_def demo_transf_def demo_cloud_def tip_list_def)


text \<open>
  C8. With a 4x4 transform \<open>F = mujoco2gym_transf\<close>, every frame \<open>t\<close> of the returned sample has
  \<^verbatim>\<open>obj_trajectory[t]\<close> equal to the full matrix product of \<open>F\<close> with the input frame (entry
  \<open>(i, j)\<close> is the sum over \<open>k < 4\<close> of \<open>F[i][k] * M[k][j]\<close>), \<^verbatim>\<open>wrist_pos[t]\<close> equal to \<open>R x + p\<close> for
  the input position \<open>x\<close>, where \<open>R\<close> is the upper-left 3x3 block of \<open>F\<close> and \<open>p\<close> the first three
  entries of its last column, and the same map applied to every frame of every entry of
  \<^verbatim>\<open>mano_joints\<close>, whose keys are unchanged.
\<close>

theorem process_data_remaps_frame:
  assumes ret: "process_data tfl self data idx rs_verts_obj = Inr (d, printed)"
    and F: "length (mujoco2gym_transf self) = 4" "\<forall>row\<in>set (mujoco2gym_transf self). length row = 4"
  shows "(\<forall>t<length (obj_trajectory d).
            obj_trajectory d ! t = matmul 4 (mujoco2gym_transf self) (raw_obj_trajectory data ! t) \<and>
            (length (raw_obj_trajectory data ! t) = 4 \<longrightarrow>
               (\<forall>i<4. \<forall>j<4. obj_trajectory d ! t ! i ! j =
                  (\<Sum>k<4. mujoco2gym_transf self ! i ! k * raw_obj_trajectory data ! t ! k ! j)))) \<and>
         (\<forall>t<length (wrist_pos d). length (raw_wrist_pos data ! t) = 3 \<longrightarrow>
            wrist_pos d ! t = vadd (mv (rot_block (mujoco2gym_transf self)) (raw_wrist_pos data ! t))
                                   (transl_col (mujoco2gym_transf self)) \<and>
            (\<forall>i<3. wrist_pos d ! t ! i =
               (\<Sum>j<3. mujoco2gym_transf self ! i ! j * raw_wrist_pos data ! t ! j)
                 + mujoco2gym_transf self ! i ! 3)) \<and>
         map fst (mano_joints d) = map fst (raw_mano_joints data) \<and>
         (\<forall>n<length (mano_joints d). \<forall>t<length (snd (mano_joints d ! n)).
            length (snd (raw_mano_joints data ! n) ! t) = 3 \<longrightarrow>
            snd (mano_joints d ! n) ! t =
              vadd (mv (rot_block (mujoco2gym_transf self)) (snd (raw_mano_joints data ! n) ! t))
                   (transl_col (mujoco2gym_transf self)) \<and>
            (\<forall>i<3. snd (mano_joints d ! n) ! t ! i =
               (\<Sum>j<3. mujoco2gym_transf self ! i ! j * snd (raw_mano_joints data ! n) ! t ! j)
                 + mujoco2gym_transf self ! i ! 3))"
proof -
  define F where "F = mujoco2gym_transf self"
  define long where "long = (int (length (raw_obj_trajectory data)) > max_seq_len self)"
  from ret obtain tip_series dt ov wv mjv pre where
    pre_def: "pre = \<lparr>obj_trajectory = map (matmul 4 F) (raw_obj_trajectory data),
        wrist_pos = rotate_translate (rot_block F) (transl_col F) (raw_wrist_pos data),
        wrist_rot = map (\<lambda>M. rotmat_to_aa tfl (matmul 3 (rot_block F) M)) (raw_wrist_rot data),
        mano_joints = map_values (rotate_translate (rot_block F) (transl_col F)) (raw_mano_joints data),
        tips_distance = map (map sqrt) (chamfer_dist1 (cat_dim1 tip_series)
           (map (\<lambda>M. rotate_translate (rot_block M) (transl_col M) rs_verts_obj)
              (map (matmul 4 F) (raw_obj_trajectory data)))),
        obj_velocity = ov,
        obj_angular_velocity = compute_angular_velocity (rotmat_to_aa tfl)
           (map rot_block (map (matmul 4 F) (raw_obj_trajectory data))) dt True,
        wrist_velocity = wv,
        wrist_angular_velocity = compute_angular_velocity (rotmat_to_aa tfl)
           (map (aa_to_rotmat tfl) (map (\<lambda>M. rotmat_to_aa tfl (matmul 3 (rot_block F) M))
                      (raw_wrist_rot data))) dt True,
        mano_joints_velocity = mjv\<rparr>"
    and trunc: "truncate_primary self idx pre = (d, printed)"
    unfolding F_def by (rule process_data_Inr) blast
  have pre: "obj_trajectory pre = map (matmul 4 F) (raw_obj_trajectory data)"
         "wrist_pos pre = rotate_translate (rot_block F) (transl_col F) (raw_wrist_pos data)"
         "mano_joints pre = map_values (rotate_translate (rot_block F) (transl_col F)) (raw_mano_joints data)"
    by (simp_all add: pre_def)
  have "long = (int (length (obj_trajectory pre)) > max_seq_len self)"
    by (simp add: long_def pre)
  note fields = truncate_primary_fields [OF trunc this]
  have Fs: "length F = 4" "\<forall>row\<in>set F. length row = 4"
    using F by (simp_all add: F_def)
  have obj: "\<forall>t<length (obj_trajectory d).
            obj_trajectory d ! t = matmul 4 F (raw_obj_trajectory data ! t) \<and>
            (length (raw_obj_trajectory data ! t) = 4 \<longrightarrow>
               (\<forall>i<4. \<forall>j<4. obj_trajectory d ! t ! i ! j =
                  (\<Sum>k<4. F ! i ! k * raw_obj_trajectory data ! t ! k ! j)))"
  proof (intro allI impI)
    fix t assume t: "t < length (obj_trajectory d)"
    then have t': "t < length (raw_obj_trajectory data)"
      using length_clip_le [of long "max_seq_len self" "obj_trajectory pre"]
      by (simp add: fields(1) pre)
    have eq: "obj_trajectory d ! t = matmul 4 F (raw_obj_trajectory data ! t)"
      using t t' by (simp add: fields(1) clip_nth pre)
    show "obj_trajectory d ! t = matmul 4 F (raw_obj_trajectory data ! t) \<and>
            (length (raw_obj_trajectory data ! t) = 4 \<longrightarrow>
               (\<forall>i<4. \<forall>j<4. obj_trajectory d ! t ! i ! j =
                  (\<Sum>k<4. F ! i ! k * raw_obj_trajectory data ! t ! k ! j)))"
      using Fs by (simp add: eq matmul_entry [where n = 4])
  qed
  have rigid: "t < length (clip long (max_seq_len self) (rotate_translate (rot_block F) (transl_col F) X)) \<Longrightarrow>
      length (X ! t) = 3 \<Longrightarrow>
      clip long (max_seq_len self) (rotate_translate (rot_block F) (transl_col F) X) ! t
        = vadd (mv (rot_block F) (X ! t)) (transl_col F) \<and>
      (\<forall>i<3. clip long (max_seq_len self) (rotate_translate (rot_block F) (transl_col F) X) ! t ! i =
               (\<Sum>j<3. F ! i ! j * X ! t ! j) + F ! i ! 3)" for t X
  proof -
    assume t: "t < length (clip long (max_seq_len self) (rotate_translate (rot_block F) (transl_col F) X))"
      and x: "length (X ! t) = 3"
    from t have t': "t < length X"
      using length_clip_le [of long "max_seq_len self" "rotate_translate (rot_block F) (transl_col F) X"]
      by simp
    show ?thesis
      using t t' x Fs by (simp add: clip_nth rotate_translate_nth rigid_map_entry)
  qed
  have wrist: "\<forall>t<length (wrist_pos d). length (raw_wrist_pos data ! t) = 3 \<longrightarrow>
            wrist_pos d ! t = vadd (mv (rot_block F) (raw_wrist_pos data ! t)) (transl_col F) \<and>
            (\<forall>i<3. wrist_pos d ! t ! i =
               (\<Sum>j<3. F ! i ! j * raw_wrist_pos data ! t ! j) + F ! i ! 3)"
    unfolding fields(2) pre(2) using rigid [of _ "raw_wrist_pos data"] by blast
  have keys: "map fst (mano_joints d) = map fst (raw_mano_joints data)"
    by (simp add: fields(9) pre map_values_def case_prod_beta o_def)
  have joints: "\<forall>n<length (mano_joints d). \<forall>t<length (snd (mano_joints d ! n)).
            length (snd (raw_mano_joints data ! n) ! t) = 3 \<longrightarrow>
            snd (mano_joints d ! n) ! t =
              vadd (mv (rot_block F) (snd (raw_mano_joints data ! n) ! t)) (transl_col F) \<and>
            (\<forall>i<3. snd (mano_joints d ! n) ! t ! i =
               (\<Sum>j<3. F ! i ! j * snd (raw_mano_joints data ! n) ! t ! j) + F ! i ! 3)"
  proof (intro allI impI)
    fix n t assume n: "n < length (mano_joints d)"
      and t: "t < length (snd (mano_joints d ! n))"
      and x: "length (snd (raw_mano_joints data ! n) ! t) = 3"
    from n have n': "n < length (raw_mano_joints data)"
      by (simp add: fields(9) pre map_values_def)
    then have eq: "snd (mano_joints d ! n) = clip long (max_seq_len self)
        (rotate_translate (rot_block F) (transl_col F) (snd (raw_mano_joints data ! n)))"
      by (simp add: fields(9) pre map_values_def case_prod_beta)
    from t x
    show "snd (mano_joints d ! n) ! t =
              vadd (mv (rot_block F) (snd (raw_mano_joints data ! n) ! t)) (transl_col F) \<and>
            (\<forall>i<3. snd (mano_joints d ! n) ! t ! i =
               (\<Sum>j<3. F ! i ! j * snd (raw_mano_joints data ! n) ! t ! j) + F ! i ! 3)"
      unfolding eq by (rule rigid)
  qed
  from obj wrist keys joints show ?thesis unfolding F_def by blast
qed

theorem process_data_remaps_frame_witness:
  "\<exists>d printed. process_data axis_angle_library demo_self demo_raw 0 demo_cloud = Inr (d, printed) \<and>
     obj_trajectory d ! 1 = [[0, -1, 0, 1], [1, 0, 0, 1], [0, 0, 1, 0], [0, 0, 0, 1]] \<and>
     wrist_pos d ! 1 = [1, 1, 0] \<and>
     wrist_pos d ! 1 ! 0 = 1 \<and>
     fst (mano_joints d ! 1) = ''thumb_tip'' \<and>
     snd (mano_joints d ! 1) ! 1 = [1, 1, 0]"
proof -
  from demo_returns obtain d printed where
    ret: "process_data axis_angle_library demo_self demo_raw 0 demo_cloud = Inr (d, printed)"
    by blast
  note val = demo_fields [OF ret]
  have len: "length (obj_trajectory d) = 2" "length (wrist_pos d) = 2"
    "\<forall>X\<in>snd ` set (mano_joints d). length X = 2"
    using process_data_lengths [OF ret demo_shapes(1-5)] by (simp_all add: demo_self_def)
  note claim = process_data_remaps_frame [OF ret demo_shapes(6,7)]
  have F: "mujoco2gym_transf demo_self = demo_transf" by (simp add: demo_self_def)
  from claim have "\<forall>t<length (obj_trajectory d).
      obj_trajectory d ! t = matmul 4 demo_transf (raw_obj_trajectory demo_raw ! t)"
    unfolding F by blast
  then have "obj_trajectory d ! 1 = matmul 4 demo_transf (raw_obj_trajectory demo_raw ! 1)"
    using len(1) by simp
  then have 1: "obj_trajectory d ! 1 = [[0, -1, 0, 1], [1, 0, 0, 1], [0, 0, 1, 0], [0, 0, 0, 1]]"
    by (simp add: demo_raw_def demo_remap_pose)
  from claim have "\<forall>t<length (wrist_pos d). length (raw_wrist_pos demo_raw ! t) = 3 \<longrightarrow>
      wrist_pos d ! t = vadd (mv (rot_block demo_transf) (raw_wrist_pos demo_raw ! t)) (transl_col demo_transf) \<and>
      (\<forall>i<3. wrist_pos d ! t ! i =
               (\<Sum>j<3. demo_transf ! i ! j * raw_wrist_pos demo_raw ! t ! j) + demo_transf ! i ! 3)"
    unfolding F by blast
  then have wr: "wrist_pos d ! 1 = vadd (mv (rot_block demo_transf) (raw_wrist_pos demo_raw ! 1)) (transl_col demo_transf) \<and>
      (\<forall>i<3. wrist_pos d ! 1 ! i =
               (\<Sum>j<3. demo_transf ! i ! j * raw_wrist_pos demo_raw ! 1 ! j) + demo_transf ! i ! 3)"
  proof -
    have "1 < length (wrist_pos d)" using len(2) by simp
    moreover have "length (raw_wrist_pos demo_raw ! 1) = 3"
      by (simp add: demo_raw_def demo_line_def)
    ultimately show ?thesis using \<open>\<forall>t<length (wrist_pos d). _\<close> by blast
  qed
  have x: "raw_wrist_pos demo_raw ! 1 = [1, 0, 0]" by (simp add: demo_raw_def demo_line_def)
  from wr have w: "wrist_pos d ! 1 = vadd (mv (rot_block demo_transf) [1, 0, 0]) (transl_col demo_transf)"
    unfolding x by blast
  from wr have "\<forall>i<3. wrist_pos d ! 1 ! i = (\<Sum>j<3. demo_transf ! i ! j * [1, 0, 0] ! j) + demo_transf ! i ! 3"
    unfolding x by blast
  from this [rule_format, of 0]
  have w0: "wrist_pos d ! 1 ! 0 = (\<Sum>j<3. demo_transf ! 0 ! j * [1, 0, 0] ! j) + demo_transf ! 0 ! 3"
    by simp
  from w have 2: "wrist_pos d ! 1 = [1, 1, 0]"
    by (simp add: vadd_def mv_def dot_def rot_block_def transl_col_def column_def demo_transf_def)
  from w0 have 3: "wrist_pos d ! 1 ! 0 = 1"
    by (simp add: demo_transf_def lessThan_nat_numeral lessThan_Suc)
  from claim have keys: "map fst (mano_joints d) = map fst (raw_mano_joints demo_raw)" by blast
  then have n: "length (mano_joints d) = 6"
    using length_map [of fst "mano_joints d"] by (simp add: demo_raw_def)
  then have "snd (mano_joints d ! 1) \<in> snd ` set (mano_joints d)" by simp
  with len(3) have t: "length (snd (mano_joints d ! 1)) = 2" by blast
  from claim have "\<forall>n<length (mano_joints d). \<forall>t<length (snd (mano_joints d ! n)).
            length (snd (raw_mano_joints demo_raw ! n) ! t) = 3 \<longrightarrow>
            snd (mano_joints d ! n) ! t =
              vadd (mv (rot_block demo_transf) (snd (raw_mano_joints demo_raw ! n) ! t))
                   (transl_col demo_transf)"
    unfolding F by blast
  with n t have "snd (mano_joints d ! 1) ! 1 = vadd (mv (rot_block demo_transf) [1, 0, 0]) (transl_col demo_transf)"
    by (simp add: demo_raw_def demo_line_def)
  then have 4: "snd (mano_joints d ! 1) ! 1 = [1, 1, 0]"
    by (simp add: vadd_def mv_def dot_def rot_block_def transl_col_def column_def demo_transf_def)
  from keys n have 5: "fst (mano_joints d ! 1) = ''thumb_tip''"
    using nth_map [of 1 "mano_joints d" fst] by (simp add: demo_raw_def)
  from ret 1 2 3 4 5 show ?thesis by blast
qed


section \<open>Contact distance\<close>

lemma nearest_sqdist_Min:
  "ys \<noteq> [] \<Longrightarrow> nearest_sqdist ys x = Min (sqdist x ` set ys)"
proof -
  assume "ys \<noteq> []"
  then obtain y ys' where ys: "ys = y # ys'" by (cases ys) auto
  have "nearest_sqdist ys x = fold min (map (sqdist x) ys') (sqdist x y)"
    by (simp add: nearest_sqdist_def ys)
  also have "\<dots> = Min (set (sqdist x y # map (sqdist x) ys'))"
    by (rule Min.set_eq_fold [symmetric])
  finally show ?thesis by (simp add: ys)
qed

lemma sqdist_nonneg: "0 \<le> sqdist a b"
  by (auto simp add: sqdist_def intro!: sum_list_nonneg)

lemma sqdist_self: "sqdist a a = 0"
proof -
  have "vsub a a = map (\<lambda>_. 0) a"
    by (induction a) (simp_all add: vsub_def)
  then show ?thesis by (simp add: sqdist_def o_def)
qed

lemma norm2_vsub: "norm2 (vsub a b) = sqrt (sqdist a b)"
  by (simp add: norm2_def sqdist_def)

lemma sqrt_Min:
  assumes "finite A" and "A \<noteq> {}"
  shows "sqrt (Min A) = Min (sqrt ` A)"
  by (rule mono_Min_commute) (use assms in \<open>auto intro: monoI\<close>)

lemma rotate_translate_map:
  assumes "\<forall>c\<in>set X. length c = 3"
  shows "rotate_translate R p X = map (\<lambda>c. vadd (mv R c) p) X"
  using assms by (intro nth_equalityI) (simp_all add: rotate_translate_nth)

lemma length_clip_cong: "length xs = length ys \<Longrightarrow> length (clip b n xs) = length (clip b n ys)"
  by (simp add: clip_def py_prefix_def)


text \<open>
  C6. For every frame \<open>t\<close> and each of the five fingertips \<open>q\<close> of the returned sample,
  \<^verbatim>\<open>tips_distance[t][q]\<close> is the square root of the smallest squared distance, which is the
  smallest Euclidean distance, from the fingertip position of frame \<open>t\<close> to the points
  \<open>R\<^sub>t c + p\<^sub>t\<close> of the cloud moved by the object pose of frame \<open>t\<close>; it is not negative, and it
  is 0 when the fingertip is one of these points. The cloud is not empty and holds 3-vectors,
  and the fingertip series have as many frames as the trajectory.
\<close>

theorem process_data_tips_distance:
  assumes ret: "process_data tfl self data idx rs_verts_obj = Inr (d, printed)"
    and cloud: "rs_verts_obj \<noteq> []" "\<forall>c\<in>set rs_verts_obj. length c = 3"
    and coherent: "\<forall>k\<in>set tip_list. \<forall>X. map_of (raw_mano_joints data) k = Some X \<longrightarrow>
                     length X = length (raw_obj_trajectory data)"
  shows "\<forall>t<length (tips_distance d). \<forall>q<5.
           t < length (obj_trajectory d) \<and>
           (\<exists>Y. map_of (mano_joints d) (tip_list ! q) = Some Y \<and> t < length Y \<and>
              (let tip = Y ! t;
                   M = obj_trajectory d ! t;
                   world = map (\<lambda>c. vadd (mv (rot_block M) c) (transl_col M)) rs_verts_obj
               in tips_distance d ! t ! q = sqrt (Min (sqdist tip ` set world)) \<and>
                  tips_distance d ! t ! q = Min ((\<lambda>w. norm2 (vsub tip w)) ` set world) \<and>
                  0 \<le> tips_distance d ! t ! q \<and>
                  (tip \<in> set world \<longrightarrow> tips_distance d ! t ! q = 0)))"
proof (intro allI impI)
  fix t q assume t: "t < length (tips_distance d)" and q: "q < (5::nat)"
  define F where "F = mujoco2gym_transf self"
  define long where "long = (int (length (raw_obj_trajectory data)) > max_seq_len self)"
  define L where "L = max_seq_len self"
  define joints' where "joints' = map_values (rotate_translate (rot_block F) (transl_col F)) (raw_mano_joints data)"
  define traj' where "traj' = map (matmul 4 F) (raw_obj_trajectory data)"
  from ret obtain tip_series dt ov wv mjv pre where
    tips: "lookup_all joints' tip_list = Inr tip_series"
    and pre_def: "pre = \<lparr>obj_trajectory = traj',
        wrist_pos = rotate_translate (rot_block F) (transl_col F) (raw_wrist_pos data),
        wrist_rot = map (\<lambda>M. rotmat_to_aa tfl (matmul 3 (rot_block F) M)) (raw_wrist_rot data),
        mano_joints = joints',
        tips_distance = map (map sqrt) (chamfer_dist1 (cat_dim1 tip_series)
           (map (\<lambda>M. rotate_translate (rot_block M) (transl_col M) rs_verts_obj) traj')),
        obj_velocity = ov,
        obj_angular_velocity = compute_angular_velocity (rotmat_to_aa tfl) (map rot_block traj') dt True,
        wrist_velocity = wv,
        wrist_angular_velocity = compute_angular_velocity (rotmat_to_aa tfl)
           (map (aa_to_rotmat tfl) (map (\<lambda>M. rotmat_to_aa tfl (matmul 3 (rot_block F) M))
                      (raw_wrist_rot data))) dt True,
        mano_joints_velocity = mjv\<rparr>"
    and trunc: "truncate_primary self idx pre = (d, printed)"
    unfolding F_def joints'_def traj'_def by (rule process_data_Inr) blast
  have "long = (int (length (obj_trajectory pre)) > max_seq_len self)"
    by (simp add: long_def pre_def traj'_def)
  note fields = truncate_primary_fields [OF trunc this, folded L_def]
  let ?T = "length (raw_obj_trajectory data)"
  have five: "length tip_list = 5" by (simp add: tip_list_def)
  from lookup_all_Inr [OF tips] five have len_ts: "length tip_series = 5"
    and look: "\<forall>i<5. map_of joints' (tip_list ! i) = Some (tip_series ! i)"
    by simp_all
  have series_len: "length (tip_series ! i) = ?T" if "i < 5" for i
  proof -
    from look that have "map_of joints' (tip_list ! i) = Some (tip_series ! i)" by simp
    then obtain X where X: "map_of (raw_mano_joints data) (tip_list ! i) = Some X"
      and eq: "tip_series ! i = rotate_translate (rot_block F) (transl_col F) X"
      by (auto simp add: joints'_def map_of_map_values)
    from that five have "tip_list ! i \<in> set tip_list" by simp
    with coherent X have "length X = ?T" by blast
    then show ?thesis by (simp add: eq)
  qed
  have hd_ts: "hd tip_series = tip_series ! 0"
    using len_ts by (cases tip_series) simp_all
  have len_cat: "length (cat_dim1 tip_series) = ?T"
    using series_len [of 0] by (simp add: cat_dim1_def hd_ts)
  define dist where "dist = map (map sqrt) (chamfer_dist1 (cat_dim1 tip_series)
           (map (\<lambda>M. rotate_translate (rot_block M) (transl_col M) rs_verts_obj) traj'))"
  have len_dist: "length dist = ?T"
    by (simp add: dist_def chamfer_dist1_def len_cat traj'_def)
  have td: "tips_distance d = clip long L dist"
    by (simp add: fields(4) pre_def dist_def)
  have tT: "t < ?T"
    using t length_clip_le [of long L dist] by (simp add: td len_dist)
  have t_traj: "t < length (obj_trajectory d)"
    using t length_clip_cong [of dist traj' long L]
    by (simp add: td fields(1) pre_def len_dist traj'_def)
  define Y where "Y = clip long L (tip_series ! q)"
  have Y_look: "map_of (mano_joints d) (tip_list ! q) = Some Y"
    using look q by (simp add: fields(9) pre_def map_of_map_values Y_def)
  have t_Y: "t < length Y"
    using t length_clip_cong [of dist "tip_series ! q" long L] series_len [OF q]
    by (simp add: td Y_def len_dist)
  have Yt: "Y ! t = tip_series ! q ! t"
    using t_Y by (simp add: Y_def clip_nth)
  have Mt: "obj_trajectory d ! t = traj' ! t"
    using t_traj by (simp add: fields(1) pre_def clip_nth)
  define world where "world = map (\<lambda>c. vadd (mv (rot_block (traj' ! t)) c) (transl_col (traj' ! t))) rs_verts_obj"
  have world_ne: "world \<noteq> []" using cloud(1) by (simp add: world_def)
  have "tips_distance d ! t = dist ! t"
    using t by (simp add: td clip_nth)
  also have "\<dots> = map sqrt (map (nearest_sqdist world) (map (\<lambda>x. x ! t) tip_series))"
    using tT len_cat series_len [of 0]
    by (simp add: dist_def chamfer_dist1_def cat_dim1_def hd_ts traj'_def world_def
        rotate_translate_map [OF cloud(2)])
  finally have "tips_distance d ! t ! q = sqrt (nearest_sqdist world (tip_series ! q ! t))"
    using q len_ts by simp
  then have val: "tips_distance d ! t ! q = sqrt (Min (sqdist (Y ! t) ` set world))"
    by (simp add: nearest_sqdist_Min [OF world_ne] Yt)
  have fin: "finite (sqdist (Y ! t) ` set world)" "sqdist (Y ! t) ` set world \<noteq> {}"
    using world_ne by simp_all
  have val2: "tips_distance d ! t ! q = Min ((\<lambda>w. norm2 (vsub (Y ! t) w)) ` set world)"
    by (simp add: val sqrt_Min [OF fin] image_image norm2_vsub)
  have Min_nonneg: "0 \<le> Min (sqdist (Y ! t) ` set world)"
    using fin by (auto simp add: sqdist_nonneg)
  then have nonneg: "0 \<le> tips_distance d ! t ! q"
    by (simp add: val)
  have zero: "tips_distance d ! t ! q = 0" if "Y ! t \<in> set world"
  proof -
    from that have "0 \<in> sqdist (Y ! t) ` set world"
      using sqdist_self [of "Y ! t"] by (metis image_eqI)
    then have "Min (sqdist (Y ! t) ` set world) \<le> 0"
      using fin(1) by (simp add: Min_le)
    with Min_nonneg show ?thesis by (simp add: val)
  qed
  show "t < length (obj_trajectory d) \<and>
           (\<exists>Y. map_of (mano_joints d) (tip_list ! q) = Some Y \<and> t < length Y \<and>
              (let tip = Y ! t;
                   M = obj_trajectory d ! t;
                   world = map (\<lambda>c. vadd (mv (rot_block M) c) (transl_col M)) rs_verts_obj
               in tips_distance d ! t ! q = sqrt (Min (sqdist tip ` set world)) \<and>
                  tips_distance d ! t ! q = Min ((\<lambda>w. norm2 (vsub tip w)) ` set world) \<and>
                  0 \<le> tips_distance d ! t ! q \<and>
                  (tip \<in> set world \<longrightarrow> tips_distance d ! t ! q = 0)))"
    using t_traj Y_look t_Y val val2 nonneg zero
    unfolding Let_def Mt world_def [symmetric] by blast
qed

theorem process_data_tips_distance_witness:
  "\<exists>d printed. process_data axis_angle_library demo_self demo_raw 0 demo_cloud = Inr (d, printed) \<and>
     tips_distance d ! 0 ! 0 = 0 \<and> 0 \<le> tips_distance d ! 1 ! 4"
proof -
  from demo_returns obtain d printed where
    ret: "process_data axis_angle_library demo_self demo_raw 0 demo_cloud = Inr (d, printed)"
    by blast
  note val = demo_fields [OF ret]
  have len: "length (tips_distance d) = 2"
    using process_data_lengths [OF ret demo_shapes(1-5)] by (simp add: demo_self_def)
  note claim = process_data_tips_distance [OF ret demo_shapes(8-10), rule_format]
  have world: "map (\<lambda>c. vadd (mv (rot_block (obj_trajectory d ! 0)) c) (transl_col (obj_trajectory d ! 0))) demo_cloud
      = [[1, 0, 0], [-2, 0, 4]]"
    by (simp add: val(1) vadd_def mv_def dot_def rot_block_def transl_col_def column_def demo_cloud_def)
  have key: "map_of (mano_joints d) (tip_list ! q) = Some [[1, 0, 0], [1, 1, 0]]" if "q < 5" for q
  proof -
    have "length tip_list = 5" by (simp add: tip_list_def)
    with that have "tip_list ! q \<in> set tip_list" by (intro nth_mem) simp
    moreover have "set tip_list \<subseteq> fst ` set (raw_mano_joints demo_raw)"
      by (simp add: tip_list_def demo_raw_def)
    ultimately show ?thesis unfolding val(3) by auto
  qed
  have "0 < length (tips_distance d)" and "(0::nat) < 5" using len by simp_all
  from claim [OF this] obtain Y where Y: "map_of (mano_joints d) (tip_list ! 0) = Some Y"
    and zero: "Y ! 0 \<in> set (map (\<lambda>c. vadd (mv (rot_block (obj_trajectory d ! 0)) c)
                   (transl_col (obj_trajectory d ! 0))) demo_cloud) \<longrightarrow> tips_distance d ! 0 ! 0 = 0"
    unfolding Let_def by blast
  from Y key [of 0] have "Y = [[1, 0, 0], [1, 1, 0]]" by simp
  then have "Y ! 0 = [1, 0, 0]" by simp
  with zero have 1: "tips_distance d ! 0 ! 0 = 0" unfolding world by simp
  have "1 < length (tips_distance d)" and "(4::nat) < 5" using len by simp_all
  from claim [OF this] have 2: "0 \<le> tips_distance d ! 1 ! 4"
    unfolding Let_def by blast
  from ret 1 2 show ?thesis by blast
qed

section \<open>Results of load_retargeted_data\<close>

lemma load_retargeted_data_cases:
  assumes "retargeted_bundle self fs data path = ((pos, rot, dof), printed)"
  defines "long \<equiv> int (length pos) > max_seq_len self"
  defines "L \<equiv> max_seq_len self"
  shows "load_retargeted_data tfl self fs data path =
     (if skip self = 0 then Inl ZeroDivisionError
      else if length pos < 2 \<or> length dof < 2 then Inl ValueError
      else if length (clip long L pos) \<noteq> length (obj_trajectory data) then Inl AssertionError
      else (case (compute_velocity pos (1 / (120 / real_of_int (skip self))) True,
                  compute_dof_velocity dof (1 / (120 / real_of_int (skip self))) True) of
              (Inr vel, Inr dof_vel) \<Rightarrow>
                 Inr (sample.extend data
                   (opt_sample.fields (clip long L pos) (clip long L rot) (clip long L dof)
                      (clip long L vel)
                      (clip long L (compute_angular_velocity (rotmat_to_aa tfl)
                         (map (aa_to_rotmat tfl) rot) (1 / (120 / real_of_int (skip self))) True))
                      (clip long L dof_vel)))
            | _ \<Rightarrow> Inl ValueError),
      printed)"
proof -
  let ?dt = "1 / (120 / real_of_int (skip self))"
  show ?thesis
  proof (cases "skip self = 0")
    case True
    then show ?thesis by (simp add: load_retargeted_data_def assms(1) time_delta_of_def)
  next
    case skip: False
    show ?thesis
    proof (cases "length pos < 2")
      case True
      then show ?thesis
        using skip by (simp add: load_retargeted_data_def assms(1) time_delta_of_def compute_velocity_short)
    next
      case pos: False
      then obtain vel where vel: "compute_velocity pos ?dt True = Inr vel"
        using compute_velocity_returns [of pos ?dt True] by auto
      show ?thesis
      proof (cases "length dof < 2")
        case True
        then show ?thesis
          using skip pos vel
          by (simp add: load_retargeted_data_def assms(1) time_delta_of_def compute_dof_velocity_eq
              compute_velocity_short)
      next
        case dof: False
        then obtain dof_vel where dv: "compute_dof_velocity dof ?dt True = Inr dof_vel"
          using compute_velocity_returns [of dof ?dt True] by (auto simp add: compute_dof_velocity_eq)
        show ?thesis
          using skip pos dof vel dv
          by (simp add: load_retargeted_data_def assms(1) time_delta_of_def Let_def clip_def long_def L_def)
      qed
    qed
  qed
qed


lemma retargeted_bundle_absent:
  "fs path = None \<Longrightarrow>
     retargeted_bundle self fs data path =
       ((wrist_pos data, wrist_rot data,
         replicate (length (wrist_pos data)) (replicate (n_dofs self) 0)),
        (if verbose self then [RetargetedDataMissing path, SlowerTransfer, RunRetargetingFirst] else []))"
  by (simp add: retargeted_bundle_def)

lemma retargeted_bundle_present:
  "fs path = Some opt \<Longrightarrow>
     retargeted_bundle self fs data path =
       ((params_opt_wrist_pos opt, params_opt_wrist_rot opt, params_opt_dof_pos opt), [])"
  by (simp add: retargeted_bundle_def)

lemma load_retargeted_data_Inr:
  assumes bnd: "retargeted_bundle self fs data path = ((pos, rot, dof), printed)"
    and ret: "fst (load_retargeted_data tfl self fs data path) = Inr d'"
  shows "skip self \<noteq> 0" and "2 \<le> length pos" and "2 \<le> length dof"
    and "length (clip (int (length pos) > max_seq_len self) (max_seq_len self) pos)
           = length (obj_trajectory data)"
    and "opt_wrist_pos d' = clip (int (length pos) > max_seq_len self) (max_seq_len self) pos"
    and "opt_wrist_rot d' = clip (int (length pos) > max_seq_len self) (max_seq_len self) rot"
    and "opt_dof_pos d' = clip (int (length pos) > max_seq_len self) (max_seq_len self) dof"
    and "obj_trajectory d' = obj_trajectory data"
    and "wrist_pos d' = wrist_pos data"
  using ret unfolding load_retargeted_data_cases [OF bnd]
  by (auto simp add: sample.defs opt_sample.defs split: if_splits sum.splits)

lemma load_retargeted_data_returns:
  assumes bnd: "retargeted_bundle self fs data path = ((pos, rot, dof), printed)"
    and "skip self \<noteq> 0" and "2 \<le> length pos" and "2 \<le> length dof"
    and "length (clip (int (length pos) > max_seq_len self) (max_seq_len self) pos)
           = length (obj_trajectory data)"
  shows "\<exists>d'. load_retargeted_data tfl self fs data path = (Inr d', printed)"
proof -
  let ?dt = "1 / (120 / real_of_int (skip self))"
  from assms(3) obtain vel where "compute_velocity pos ?dt True = Inr vel"
    using compute_velocity_returns [of pos ?dt True] by auto
  moreover from assms(4) obtain dof_vel where "compute_dof_velocity dof ?dt True = Inr dof_vel"
    using compute_velocity_returns [of dof ?dt True] by (auto simp add: compute_dof_velocity_eq)
  ultimately show ?thesis
    using assms(2-5) unfolding load_retargeted_data_cases [OF bnd] by simp
qed

lemma clip_same_length:
  "xs \<noteq> [] \<Longrightarrow> length (clip (int (length xs) > n) n xs) = length xs \<Longrightarrow>
     clip (int (length xs) > n) n ys = ys"
  by (cases xs) (auto simp add: clip_def py_prefix_def split: if_splits)

lemma demo_bundle_present:
  "retargeted_bundle self demo_fs data ''retargeted.pkl'' =
     ((params_opt_wrist_pos demo_params, params_opt_wrist_rot demo_params,
       params_opt_dof_pos demo_params), [])"
  by (simp add: retargeted_bundle_def demo_fs_def)

lemma demo_absent: "demo_fs ''missing.pkl'' = None"
  by (simp add: demo_fs_def)


text \<open>
  C1. Whenever \<^verbatim>\<open>load_retargeted_data\<close> returns a sample, in either branch, the length of
  \<^verbatim>\<open>opt_wrist_pos\<close> equals the length of \<^verbatim>\<open>obj_trajectory\<close> (which the call does not change). When
  the length of the truncated \<^verbatim>\<open>opt_wrist_pos\<close> differs from the length of
  \<^verbatim>\<open>obj_trajectory\<close>, no sample is returned, and the error is the assertion's whenever the
  call gets as far as the assertion (the frame skip is not 0 and the position and
  degree-of-freedom series have the two frames that differentiation requires).
\<close>

theorem load_retargeted_data_length_parity:
  "(\<forall>d'. fst (load_retargeted_data tfl self fs data path) = Inr d' \<longrightarrow>
        length (opt_wrist_pos d') = length (obj_trajectory d') \<and>
        obj_trajectory d' = obj_trajectory data) \<and>
   (\<forall>pos rot dof printed.
        retargeted_bundle self fs data path = ((pos, rot, dof), printed) \<and>
        length (clip (int (length pos) > max_seq_len self) (max_seq_len self) pos)
          \<noteq> length (obj_trajectory data) \<longrightarrow>
        (\<forall>d'. fst (load_retargeted_data tfl self fs data path) \<noteq> Inr d') \<and>
        (skip self \<noteq> 0 \<and> 2 \<le> length pos \<and> 2 \<le> length dof \<longrightarrow>
           fst (load_retargeted_data tfl self fs data path) = Inl AssertionError))"
proof (intro conjI allI impI)
  fix d' assume ret: "fst (load_retargeted_data tfl self fs data path) = Inr d'"
  obtain pos rot dof printed where
    bnd: "retargeted_bundle self fs data path = ((pos, rot, dof), printed)"
    by (cases "retargeted_bundle self fs data path") auto
  from load_retargeted_data_Inr [OF bnd ret]
  show "length (opt_wrist_pos d') = length (obj_trajectory d')"
    and "obj_trajectory d' = obj_trajectory data"
    by simp_all
next
  fix pos rot dof printed d'
  assume a: "retargeted_bundle self fs data path = ((pos, rot, dof), printed) \<and>
        length (clip (int (length pos) > max_seq_len self) (max_seq_len self) pos)
          \<noteq> length (obj_trajectory data)"
  then show "fst (load_retargeted_data tfl self fs data path) \<noteq> Inr d'"
    using load_retargeted_data_Inr(4) [of self fs data path pos rot dof printed tfl d'] by blast
next
  fix pos rot dof printed
  assume a: "retargeted_bundle self fs data path = ((pos, rot, dof), printed) \<and>
        length (clip (int (length pos) > max_seq_len self) (max_seq_len self) pos)
          \<noteq> length (obj_trajectory data)"
    and b: "skip self \<noteq> 0 \<and> 2 \<le> length pos \<and> 2 \<le> length dof"
  from a have bnd: "retargeted_bundle self fs data path = ((pos, rot, dof), printed)" by blast
  from a b show "fst (load_retargeted_data tfl self fs data path) = Inl AssertionError"
    unfolding load_retargeted_data_cases [OF bnd] by simp
qed

theorem load_retargeted_data_length_parity_witness:
  "(\<exists>d'. fst (load_retargeted_data axis_angle_library demo_self demo_fs demo_sample ''retargeted.pkl'')
            = Inr d' \<and>
         length (opt_wrist_pos d') = 2 \<and> length (obj_trajectory d') = 2) \<and>
   fst (load_retargeted_data axis_angle_library (demo_self\<lparr>max_seq_len := 5\<rparr>) demo_fs demo_sample
          ''retargeted.pkl'') = Inl AssertionError"
proof -
  have "\<exists>d'. load_retargeted_data axis_angle_library demo_self demo_fs demo_sample ''retargeted.pkl''
          = (Inr d', [])"
    by (rule load_retargeted_data_returns [OF demo_bundle_present])
      (simp_all add: demo_self_def demo_params_def demo_sample_def clip_def py_prefix_def)
  then obtain d' where
    ret: "fst (load_retargeted_data axis_angle_library demo_self demo_fs demo_sample ''retargeted.pkl'')
            = Inr d'"
    by auto
  from load_retargeted_data_length_parity
    [of axis_angle_library demo_self demo_fs demo_sample "''retargeted.pkl''"] ret
  have "length (opt_wrist_pos d') = length (obj_trajectory d')"
    and "obj_trajectory d' = obj_trajectory demo_sample"
    by blast+
  then have 1: "length (opt_wrist_pos d') = 2 \<and> length (obj_trajectory d') = 2"
    by (simp add: demo_sample_def)
  have "retargeted_bundle (demo_self\<lparr>max_seq_len := 5\<rparr>) demo_fs demo_sample ''retargeted.pkl'' =
     ((params_opt_wrist_pos demo_params, params_opt_wrist_rot demo_params,
       params_opt_dof_pos demo_params), []) \<and>
     length (clip (int (length (params_opt_wrist_pos demo_params)) > max_seq_len (demo_self\<lparr>max_seq_len := 5\<rparr>))
        (max_seq_len (demo_self\<lparr>max_seq_len := 5\<rparr>)) (params_opt_wrist_pos demo_params))
       \<noteq> length (obj_trajectory demo_sample)"
    and "skip (demo_self\<lparr>max_seq_len := 5\<rparr>) \<noteq> 0 \<and> 2 \<le> length (params_opt_wrist_pos demo_params) \<and>
         2 \<le> length (params_opt_dof_pos demo_params)"
    by (simp_all add: demo_bundle_present demo_self_def demo_params_def demo_sample_def clip_def)
  with load_retargeted_data_length_parity
    [of axis_angle_library "demo_self\<lparr>max_seq_len := 5\<rparr>" demo_fs demo_sample "''retargeted.pkl''"]
  have 2: "fst (load_retargeted_data axis_angle_library (demo_self\<lparr>max_seq_len := 5\<rparr>) demo_fs demo_sample
          ''retargeted.pkl'') = Inl AssertionError"
    by blast
  from ret 1 2 show ?thesis by blast
qed


text \<open>
  C5 as stated fails: without an artifact and with \<^verbatim>\<open>verbose\<close> off the call returns a sample
  and prints nothing.
\<close>

theorem load_retargeted_data_silent_when_not_verbose:
  "demo_fs ''missing.pkl'' = None \<and>
   \<not> isl (fst (load_retargeted_data axis_angle_library (demo_self\<lparr>verbose := False\<rparr>) demo_fs
                  demo_sample ''missing.pkl'')) \<and>
   snd (load_retargeted_data axis_angle_library (demo_self\<lparr>verbose := False\<rparr>) demo_fs
          demo_sample ''missing.pkl'') = []"
proof -
  have "\<exists>d'. load_retargeted_data axis_angle_library (demo_self\<lparr>verbose := False\<rparr>) demo_fs demo_sample
          ''missing.pkl'' = (Inr d', if verbose (demo_self\<lparr>verbose := False\<rparr>)
        then [RetargetedDataMissing ''missing.pkl'', SlowerTransfer, RunRetargetingFirst] else [])"
    by (rule load_retargeted_data_returns [OF retargeted_bundle_absent [of demo_fs "''missing.pkl''", OF demo_absent]])
      (simp_all add: demo_self_def demo_sample_def clip_def)
  then show ?thesis by (auto simp add: demo_absent)
qed

text \<open>
  C5, amended. Without an artifact, on a sample whose \<^verbatim>\<open>wrist_pos\<close> and \<^verbatim>\<open>obj_trajectory\<close> have
  the same length \<open>T\<close>, the sample that \<^verbatim>\<open>load_retargeted_data\<close> returns has \<^verbatim>\<open>opt_wrist_pos\<close>
  equal to \<^verbatim>\<open>wrist_pos\<close>, \<^verbatim>\<open>opt_wrist_rot\<close> equal to \<^verbatim>\<open>wrist_rot\<close> and \<^verbatim>\<open>opt_dof_pos\<close> equal to \<open>T\<close>
  rows of \<open>n_dofs\<close> zeros; the three warning lines are printed when \<^verbatim>\<open>verbose\<close> is set and
  nothing is printed otherwise.
\<close>

theorem load_retargeted_data_fallback:
  assumes absent: "fs path = None"
    and coherent: "length (wrist_pos data) = length (obj_trajectory data)"
    and ret: "load_retargeted_data tfl self fs data path = (Inr d', printed)"
  shows "opt_wrist_pos d' = wrist_pos data \<and>
         opt_wrist_rot d' = wrist_rot data \<and>
         opt_dof_pos d' = replicate (length (wrist_pos data)) (replicate (n_dofs self) 0) \<and>
         printed = (if verbose self
                    then [RetargetedDataMissing path, SlowerTransfer, RunRetargetingFirst] else [])"
proof -
  note bnd = retargeted_bundle_absent [of fs path self data, OF absent]
  from ret have r: "fst (load_retargeted_data tfl self fs data path) = Inr d'" by simp
  note f = load_retargeted_data_Inr [OF bnd r]
  from f(4) coherent have same: "length (clip (int (length (wrist_pos data)) > max_seq_len self)
      (max_seq_len self) (wrist_pos data)) = length (wrist_pos data)"
    by simp
  have "printed = snd (load_retargeted_data tfl self fs data path)" by (simp add: ret)
  then have p: "printed = (if verbose self
                    then [RetargetedDataMissing path, SlowerTransfer, RunRetargetingFirst] else [])"
    unfolding load_retargeted_data_cases [OF bnd] by simp
  from f(2) have "wrist_pos data \<noteq> []" by auto
  from f(5-7) p show ?thesis
    by (simp add: clip_same_length [OF \<open>wrist_pos data \<noteq> []\<close> same])
qed


theorem load_retargeted_data_fallback_witness:
  "\<exists>d'. load_retargeted_data axis_angle_library demo_self demo_fs demo_sample ''missing.pkl''
           = (Inr d', [RetargetedDataMissing ''missing.pkl'', SlowerTransfer, RunRetargetingFirst]) \<and>
        opt_wrist_pos d' = [[1, 0, 0], [1, 1, 0]] \<and>
        opt_wrist_rot d' = [[0, 0, 0], [0, 0, 0]] \<and>
        opt_dof_pos d' = [[0, 0], [0, 0]]"
proof -
  let ?printed = "if verbose demo_self
        then [RetargetedDataMissing ''missing.pkl'', SlowerTransfer, RunRetargetingFirst] else []"
  have "\<exists>d'. load_retargeted_data axis_angle_library demo_self demo_fs demo_sample ''missing.pkl''
          = (Inr d', ?printed)"
    by (rule load_retargeted_data_returns [OF retargeted_bundle_absent [of demo_fs "''missing.pkl''", OF demo_absent]])
      (simp_all add: demo_self_def demo_sample_def clip_def)
  then obtain d' where
    ret: "load_retargeted_data axis_angle_library demo_self demo_fs demo_sample ''missing.pkl''
            = (Inr d', ?printed)"
    by blast
  have coh: "length (wrist_pos demo_sample) = length (obj_trajectory demo_sample)"
    by (simp add: demo_sample_def)
  from load_retargeted_data_fallback [OF demo_absent coh ret] ret
  show ?thesis
    by (simp add: demo_sample_def demo_self_def numeral_2_eq_2)
qed

section \<open>Angular velocity\<close>

lemma norm2_nonneg: "0 \<le> norm2 v"
  by (auto simp add: norm2_def intro!: sum_list_nonneg)

lemma axis_eps_pos: "0 < axis_eps"
  by (simp add: axis_eps_def)

lemma angular_velocity_padded_eq:
  assumes "2 \<le> length r"
  shows "angular_velocity_padded aa r dt =
           map (\<lambda>t. pair_angular_velocity aa dt (r ! Suc t) (r ! t)) [0..<length r - 1]
           @ [pair_angular_velocity aa dt (r ! (length r - 1)) (r ! (length r - 2))]"
proof -
  define av where "av = map2 (pair_angular_velocity aa dt) (tl r) (butlast r)"
  have len: "length av = length r - 1" by (simp add: av_def)
  have nth: "av ! t = pair_angular_velocity aa dt (r ! Suc t) (r ! t)" if "t < length r - 1" for t
    using that by (simp add: av_def nth_tl nth_butlast)
  have av: "av = map (\<lambda>t. pair_angular_velocity aa dt (r ! Suc t) (r ! t)) [0..<length r - 1]"
    by (rule nth_equalityI) (simp_all add: len nth)
  have "av \<noteq> []" using len assms by auto
  then have "drop (length av - 1) av = [last av]"
    by (cases av rule: rev_cases) simp_all
  also have "last av = av ! (length r - 2)"
    using \<open>av \<noteq> []\<close> len by (simp add: last_conv_nth numeral_2_eq_2)
  also have "av ! (length r - 2) = pair_angular_velocity aa dt (r ! (length r - 1)) (r ! (length r - 2))"
  proof -
    have "Suc (length r - 2) = length r - 1" using assms by simp
    with nth [of "length r - 2"] assms show ?thesis by simp
  qed
  finally have "drop (length av - 1) av
      = [pair_angular_velocity aa dt (r ! (length r - 1)) (r ! (length r - 2))]" .
  then have "angular_velocity_padded aa r dt
      = av @ [pair_angular_velocity aa dt (r ! (length r - 1)) (r ! (length r - 2))]"
    by (simp add: angular_velocity_padded_def Let_def av_def)
  then show ?thesis by (subst (asm) av) simp
qed


lemma rotmat_to_aa_ref_I3: "rotmat_to_aa_ref I3 = [0, 0, 0]"
  by (simp add: rotmat_to_aa_ref_def I3_def)

lemma rotmat_to_aa_ref_z: "rotmat_to_aa_ref quarter_turn_z = [0, 0, pi / 2]"
  by (simp add: rotmat_to_aa_ref_def quarter_turn_z_def Let_def)

lemma rotmat_to_aa_ref_x: "rotmat_to_aa_ref quarter_turn_x = [pi / 2, 0, 0]"
  by (simp add: rotmat_to_aa_ref_def quarter_turn_x_def Let_def)

lemma demo_relative_rotations:
  "matmul 3 quarter_turn_z (transpose_m 3 I3) = quarter_turn_z"
  "matmul 3 (matmul 3 quarter_turn_x quarter_turn_z) (transpose_m 3 quarter_turn_z) = quarter_turn_x"
  "matmul 3 I3 (transpose_m 3 I3) = I3"
  by (simp_all add: matmul_def transpose_m_def column_def dot_def I3_def quarter_turn_z_def
      quarter_turn_x_def eval_nat_numeral)

lemma norm2_axis: "norm2 [0, 0, pi / 2] = pi / 2" "norm2 [pi / 2, 0, 0] = pi / 2"
proof -
  have "sqrt (pi / 2 * (pi / 2)) = \<bar>pi / 2\<bar>" by (rule real_sqrt_abs2)
  then have "sqrt (pi / 2 * (pi / 2)) = pi / 2" by simp
  then show "norm2 [0, 0, pi / 2] = pi / 2" "norm2 [pi / 2, 0, 0] = pi / 2"
    unfolding norm2_def by simp_all
qed

lemma demo_padded:
  "angular_velocity_padded rotmat_to_aa_ref demo_rotations dt =
     [[0, 0, quarter_turn_rate dt], [quarter_turn_rate dt, 0, 0], [quarter_turn_rate dt, 0, 0]]"
  by (simp add: angular_velocity_padded_def pair_angular_velocity_def demo_rotations_def
      demo_relative_rotations rotmat_to_aa_ref_z rotmat_to_aa_ref_x norm2_axis Let_def
      quarter_turn_rate_def)

lemma quarter_turn_rate_pos: "0 < dt \<Longrightarrow> 0 < quarter_turn_rate dt"
  by (simp add: quarter_turn_rate_def axis_eps_def add_pos_pos)


lemma length_gaussian_kernel1d: "length (gaussian_kernel1d sigma radius) = 2 * radius + 1"
  by (simp add: gaussian_kernel1d_def Let_def)

lemma gaussian_kernel1d_pos:
  assumes "p \<in> set (gaussian_kernel1d sigma radius)"
  shows "0 < p"
proof -
  define phi where "phi = map (\<lambda>k. exp (- 0.5 / (sigma * sigma) * (real_of_int k) ^ 2))
                      [- int radius..int radius]"
  have k: "gaussian_kernel1d sigma radius = map (\<lambda>p. p / sum_list phi) phi"
    unfolding gaussian_kernel1d_def Let_def phi_def by (rule refl)
  have pos: "\<forall>q\<in>set phi. 0 < q" unfolding phi_def by auto
  have "phi \<noteq> []" unfolding phi_def by simp
  then obtain q qs where "phi = q # qs" by (cases phi) auto
  with pos have "0 < sum_list phi"
    by (auto intro!: add_pos_nonneg sum_list_nonneg simp add: less_imp_le)
  moreover from assms obtain q where "q \<in> set phi" and "p = q / sum_list phi"
    unfolding k by auto
  ultimately show ?thesis using pos by simp
qed

lemma last_two_of_three:
  "length xs = 3 \<Longrightarrow> last xs = xs ! 2 \<and> last (butlast xs) = xs ! 1"
proof -
  assume "length xs = 3"
  then obtain a b c where "xs = [a, b, c]"
    by (cases xs; cases "tl xs"; cases "tl (tl xs)") auto
  then show ?thesis by simp
qed

lemma correlate1d_nearest_last_two:
  assumes w: "length w = 17" and c: "c < length b"
  shows "correlate1d_nearest [a, b, b] w ! 2 ! c - correlate1d_nearest [a, b, b] w ! 1 ! c
           = w ! 7 * (b ! c - a ! c)"
proof -
  let ?x = "[a, b, b]"
  let ?g2 = "\<lambda>j. w ! j * ?x ! nearest_index 3 (2 + int j - 8) ! c"
  let ?g1 = "\<lambda>j. w ! j * ?x ! nearest_index 3 (1 + int j - 8) ! c"
  have half: "length w div 2 = 8" using w by simp
  have e2: "correlate1d_nearest ?x w ! 2 ! c = (\<Sum>j<17. ?g2 j)"
    using c by (simp add: correlate1d_nearest_def half w interv_sum_list_conv_sum_set_nat
        atLeast0LessThan numeral_3_eq_3)
  have e1: "correlate1d_nearest ?x w ! 1 ! c = (\<Sum>j<17. ?g1 j)"
    using c by (simp add: correlate1d_nearest_def half w interv_sum_list_conv_sum_set_nat
        atLeast0LessThan numeral_3_eq_3)
  have "(\<Sum>j<17. ?g2 j) - (\<Sum>j<17. ?g1 j) = (\<Sum>j<17. ?g2 j - ?g1 j)"
    by (simp add: sum_subtractf)
  also have "\<dots> = (\<Sum>j<(17::nat). if j = 7 then w ! 7 * (b ! c - a ! c) else 0)"
  proof (rule sum.cong)
    fix j :: nat assume "j \<in> {..<17}"
    consider "j \<le> 6" | "j = 7" | "8 \<le> j" by linarith
    then show "?g2 j - ?g1 j = (if j = 7 then w ! 7 * (b ! c - a ! c) else 0)"
    proof cases
      case 1
      then have "nearest_index 3 (2 + int j - 8) = 0" "nearest_index 3 (1 + int j - 8) = 0"
        by (simp_all add: nearest_index_def)
      with 1 show ?thesis by simp
    next
      case 2
      then have "nearest_index 3 (2 + int j - 8) = 1" "nearest_index 3 (1 + int j - 8) = 0"
        by (simp_all add: nearest_index_def)
      with 2 show ?thesis by (simp add: algebra_simps)
    next
      case 3
      then have "nearest_index 3 (2 + int j - 8) = 2"
        and "nearest_index 3 (1 + int j - 8) = 1 \<or> nearest_index 3 (1 + int j - 8) = 2"
        by (auto simp add: nearest_index_def)
      with 3 show ?thesis by auto
    qed
  qed simp
  also have "\<dots> = w ! 7 * (b ! c - a ! c)" by simp
  finally show ?thesis unfolding e1 e2 .
qed

lemma pair_angular_velocity_eq:
  "pair_angular_velocity aa dt a b =
     (let d = aa (matmul 3 a (transpose_m 3 b))
      in map (\<lambda>x. x / (norm2 d + axis_eps) * norm2 d / dt) d)"
  by (simp add: pair_angular_velocity_def Let_def)

lemma pair_angular_velocity_identity:
  assumes "matmul 3 a (transpose_m 3 b) = I3" and "aa I3 = [0, 0, 0]"
  shows "pair_angular_velocity aa dt a b = [0, 0, 0]"
  using assms by (simp add: pair_angular_velocity_def Let_def)

lemma angular_velocity_padded_nth:
  assumes "Suc t < length r"
  shows "angular_velocity_padded aa r dt ! t = pair_angular_velocity aa dt (r ! Suc t) (r ! t)"
proof -
  from assms have two: "2 \<le> length r" and t: "t < length r - 1" by simp_all
  show ?thesis
    unfolding angular_velocity_padded_eq [OF two] using t by (simp add: nth_append)
qed

lemma last_two:
  assumes "2 \<le> length xs"
  shows "last xs = xs ! (length xs - 1)" and "last (butlast xs) = xs ! (length xs - 2)"
proof -
  from assms have ne: "xs \<noteq> []" by auto
  then show "last xs = xs ! (length xs - 1)" by (rule last_conv_nth)
  from assms have "length (butlast xs) \<noteq> 0" by simp
  then have "butlast xs \<noteq> []" by (simp only: length_0_conv not_False_eq_True)
  then have "last (butlast xs) = butlast xs ! (length (butlast xs) - 1)" by (rule last_conv_nth)
  also have "length (butlast xs) - 1 = length xs - 2" by simp
  also have "butlast xs ! (length xs - 2) = xs ! (length xs - 2)"
    using assms by (intro nth_butlast) simp
  finally show "last (butlast xs) = xs ! (length xs - 2)" .
qed

lemma angular_velocity_padded_last:
  assumes "2 \<le> length r"
  shows "last (angular_velocity_padded aa r dt) = last (butlast (angular_velocity_padded aa r dt))"
proof -
  let ?p = "angular_velocity_padded aa r dt"
  have len: "length ?p = length r" using assms by (simp add: length_angular_velocity_padded)
  then have two: "2 \<le> length ?p" using assms by simp
  have "Suc (length r - 2) = length r - 1" using assms by simp
  moreover have "Suc (length r - 2) < length r" using assms by simp
  ultimately have a: "?p ! (length r - 2)
      = pair_angular_velocity aa dt (r ! (length r - 1)) (r ! (length r - 2))"
    using angular_velocity_padded_nth [of "length r - 2" r aa dt] by simp
  have b: "?p ! (length r - 1)
      = pair_angular_velocity aa dt (r ! (length r - 1)) (r ! (length r - 2))"
    unfolding angular_velocity_padded_eq [OF assms] by (simp add: nth_append)
  from last_two [OF two] a b show ?thesis unfolding len by simp
qed

lemma nearest_index_less: "0 < n \<Longrightarrow> nearest_index n i < n"
  by (auto simp add: nearest_index_def)

lemma correlate1d_nearest_constant:
  assumes "i < n"
  shows "correlate1d_nearest (replicate n v) w ! i
           = map (\<lambda>c. \<Sum>j\<leftarrow>[0..<length w]. w ! j * v ! c) [0..<length v]"
proof -
  from assms have "0 < n" by simp
  then have "replicate n v ! nearest_index n k = v" for k
    by (simp add: nearest_index_less)
  with assms show ?thesis by (simp add: correlate1d_nearest_def)
qed

lemma angular_velocity_padded_constant:
  assumes "2 \<le> length r"
    and "\<forall>t<length r - 1. pair_angular_velocity aa dt (r ! Suc t) (r ! t) = v"
  shows "angular_velocity_padded aa r dt = replicate (length r) v"
proof (rule nth_equalityI)
  show "length (angular_velocity_padded aa r dt) = length (replicate (length r) v)"
    using assms(1) by (simp add: length_angular_velocity_padded)
next
  fix i assume "i < length (angular_velocity_padded aa r dt)"
  then have i: "i < length r" using assms(1) by (simp add: length_angular_velocity_padded)
  have last: "pair_angular_velocity aa dt (r ! (length r - 1)) (r ! (length r - 2)) = v"
  proof -
    have "Suc (length r - 2) = length r - 1" "length r - 2 < length r - 1" using assms(1) by simp_all
    with assms(2) show ?thesis by metis
  qed
  show "angular_velocity_padded aa r dt ! i = replicate (length r) v ! i"
  proof (cases "Suc i < length r")
    case True
    with assms(2) show ?thesis by (simp add: angular_velocity_padded_nth)
  next
    case False
    with i have "i = length r - 1" by simp
    then show ?thesis
      using i last by (simp add: angular_velocity_padded_eq [OF assms(1)] nth_append)
  qed
qed

lemma smoothed_constant_last:
  assumes "2 \<le> n"
  shows "last (gaussian_filter1d (replicate n v) s) = last (butlast (gaussian_filter1d (replicate n v) s))"
proof -
  let ?out = "gaussian_filter1d (replicate n v) s"
  have len: "length ?out = n" by simp
  then have two: "2 \<le> length ?out" using assms by simp
  have "?out ! (n - 1) = ?out ! (n - 2)"
    using assms by (simp add: gaussian_filter1d_def correlate1d_nearest_constant)
  with last_two [OF two] show ?thesis unfolding len by simp
qed

lemma demo_identity_pair: "pair_angular_velocity rotmat_to_aa_ref dt I3 I3 = [0, 0, 0]"
  using demo_relative_rotations(3) rotmat_to_aa_ref_I3
  by (rule pair_angular_velocity_identity [of I3 I3 rotmat_to_aa_ref])


text \<open>
  C3 as stated fails: every caller smooths (\<^verbatim>\<open>guassian_filter=True\<close>, the default), and after
  the smoothing the last frame of the returned series differs from the second-to-last for
  the three-frame series of two different quarter turns.
\<close>

theorem compute_angular_velocity_smoothed_last_frame_differs:
  "last (compute_angular_velocity rotmat_to_aa_ref demo_rotations (1 / 60) True)
     \<noteq> last (butlast (compute_angular_velocity rotmat_to_aa_ref demo_rotations (1 / 60) True))"
proof
  let ?w = "rev (gaussian_kernel1d 2 8)"
  let ?q = "quarter_turn_rate (1 / 60)"
  let ?x = "[[0, 0, ?q], [?q, 0, 0], [?q, 0, 0]]"
  let ?out = "correlate1d_nearest ?x ?w"
  assume eq: "last (compute_angular_velocity rotmat_to_aa_ref demo_rotations (1 / 60) True)
     = last (butlast (compute_angular_velocity rotmat_to_aa_ref demo_rotations (1 / 60) True))"
  have out: "compute_angular_velocity rotmat_to_aa_ref demo_rotations (1 / 60) True = ?out"
    by (simp add: compute_angular_velocity_def demo_padded gaussian_filter1d_def Let_def)
  have len: "length ?out = 3" by simp
  from eq last_two_of_three [OF len] have "?out ! 2 = ?out ! 1" unfolding out by simp
  then have "?out ! 2 ! 0 - ?out ! 1 ! 0 = 0" by simp
  moreover have "?out ! 2 ! 0 - ?out ! 1 ! 0 = ?w ! 7 * ([?q, 0, 0] ! 0 - [0, 0, ?q] ! 0)"
    by (rule correlate1d_nearest_last_two) (simp_all add: length_gaussian_kernel1d)
  ultimately have "?w ! 7 * ?q = 0" by simp
  moreover have "0 < ?q" by (rule quarter_turn_rate_pos) simp
  moreover have "?w ! 7 \<in> set (gaussian_kernel1d 2 8)"
    using nth_mem [of 7 ?w] by (simp add: length_gaussian_kernel1d)
  then have "0 < ?w ! 7" by (rule gaussian_kernel1d_pos)
  ultimately show False by simp
qed



text \<open>
  C3, amended. For a rotation series of length \<open>T \<ge> 2\<close> the result has length \<open>T\<close>. The series
  before smoothing holds the \<open>T - 1\<close> per-pair vectors (the axis-angle vector \<open>d\<close> of
  \<open>r[t+1] r[t]\<^sup>T\<close>, divided by \<open>|d| + 1e-8\<close> and scaled by \<open>|d| / \<Delta>t\<close>) followed by a copy of the
  last of them, so its last frame equals its second-to-last. The returned series is that
  series when \<^verbatim>\<open>guassian_filter\<close> is off and its Gaussian smoothing when it is on; the smoothed
  last two frames are equal when all per-pair vectors are equal (constant angular rate).
\<close>

theorem compute_angular_velocity_last_frame_repeat:
  assumes "2 \<le> length r"
  shows "length (compute_angular_velocity aa r dt f) = length r \<and>
         angular_velocity_padded aa r dt =
           map (\<lambda>t. pair_angular_velocity aa dt (r ! Suc t) (r ! t)) [0..<length r - 1]
           @ [pair_angular_velocity aa dt (r ! (length r - 1)) (r ! (length r - 2))] \<and>
         (\<forall>a b. pair_angular_velocity aa dt a b =
            (let d = aa (matmul 3 a (transpose_m 3 b))
             in map (\<lambda>x. x / (norm2 d + axis_eps) * norm2 d / dt) d)) \<and>
         last (angular_velocity_padded aa r dt) = last (butlast (angular_velocity_padded aa r dt)) \<and>
         compute_angular_velocity aa r dt False = angular_velocity_padded aa r dt \<and>
         compute_angular_velocity aa r dt True = gaussian_filter1d (angular_velocity_padded aa r dt) 2 \<and>
         ((\<forall>t<length r - 1. pair_angular_velocity aa dt (r ! Suc t) (r ! t) = v) \<longrightarrow>
            last (compute_angular_velocity aa r dt True)
              = last (butlast (compute_angular_velocity aa r dt True)))"
proof -
  have 1: "length (compute_angular_velocity aa r dt f) = length r"
    using assms by (simp add: length_compute_angular_velocity)
  have 5: "compute_angular_velocity aa r dt False = angular_velocity_padded aa r dt"
    and 6: "compute_angular_velocity aa r dt True = gaussian_filter1d (angular_velocity_padded aa r dt) 2"
    by (simp_all add: compute_angular_velocity_def)
  have 7: "last (compute_angular_velocity aa r dt True)
              = last (butlast (compute_angular_velocity aa r dt True))"
    if "\<forall>t<length r - 1. pair_angular_velocity aa dt (r ! Suc t) (r ! t) = v"
    unfolding 6 angular_velocity_padded_constant [OF assms that]
    by (rule smoothed_constant_last [OF assms])
  from 1 angular_velocity_padded_eq [OF assms, of aa dt] pair_angular_velocity_eq [of aa dt]
    angular_velocity_padded_last [OF assms, of aa dt] 5 6 7
  show ?thesis by blast
qed

theorem compute_angular_velocity_last_frame_repeat_witness:
  "2 \<le> length demo_rotations \<and>
   length (compute_angular_velocity rotmat_to_aa_ref demo_rotations (1 / 60) True) = 3 \<and>
   last (angular_velocity_padded rotmat_to_aa_ref demo_rotations (1 / 60))
     = last (butlast (angular_velocity_padded rotmat_to_aa_ref demo_rotations (1 / 60))) \<and>
   compute_angular_velocity rotmat_to_aa_ref demo_rotations (1 / 60) False
     = angular_velocity_padded rotmat_to_aa_ref demo_rotations (1 / 60) \<and>
   last (compute_angular_velocity rotmat_to_aa_ref [I3, I3, I3] (1 / 60) True)
     = last (butlast (compute_angular_velocity rotmat_to_aa_ref [I3, I3, I3] (1 / 60) True))"
proof -
  have two: "2 \<le> length demo_rotations" and len: "length demo_rotations = 3"
    by (simp_all add: demo_rotations_def)
  have two': "2 \<le> length [I3, I3, I3]" by simp
  have const: "\<forall>t<length [I3, I3, I3] - 1.
      pair_angular_velocity rotmat_to_aa_ref (1 / 60) ([I3, I3, I3] ! Suc t) ([I3, I3, I3] ! t) = [0, 0, 0]"
  proof (intro allI impI)
    fix t :: nat assume "t < length [I3, I3, I3] - 1"
    then have "t = 0 \<or> t = 1" by auto
    then show "pair_angular_velocity rotmat_to_aa_ref (1 / 60) ([I3, I3, I3] ! Suc t) ([I3, I3, I3] ! t)
        = [0, 0, 0]"
      by (auto simp add: demo_identity_pair)
  qed
  from compute_angular_velocity_last_frame_repeat [OF two, of rotmat_to_aa_ref "1 / 60" True]
  have a: "length (compute_angular_velocity rotmat_to_aa_ref demo_rotations (1 / 60) True) = 3"
    and b: "last (angular_velocity_padded rotmat_to_aa_ref demo_rotations (1 / 60))
     = last (butlast (angular_velocity_padded rotmat_to_aa_ref demo_rotations (1 / 60)))"
    and c: "compute_angular_velocity rotmat_to_aa_ref demo_rotations (1 / 60) False
     = angular_velocity_padded rotmat_to_aa_ref demo_rotations (1 / 60)"
    unfolding len by blast+
  from compute_angular_velocity_last_frame_repeat [OF two', of rotmat_to_aa_ref "1 / 60" True "[0, 0, 0]"]
    const
  have d: "last (compute_angular_velocity rotmat_to_aa_ref [I3, I3, I3] (1 / 60) True)
     = last (butlast (compute_angular_velocity rotmat_to_aa_ref [I3, I3, I3] (1 / 60) True))"
    by blast
  from two a b c d show ?thesis by blast
qed


text \<open>
  C9. The denominator that normalises the axis is the norm of the pair's axis-angle vector
  plus \<open>1e-8\<close>, which is positive for every input, and the pair's angular velocity is that
  vector divided by it and scaled by norm over \<open>\<Delta>t\<close>; frame \<open>t\<close> of the unsmoothed result is the
  vector of the pair \<open>(t, t + 1)\<close>. When the relative rotation of a pair is the identity, whose
  axis-angle vector is zero, the pair's angular velocity is the zero vector.
\<close>

theorem pair_angular_velocity_denominator_positive:
  "0 < norm2 (aa (matmul 3 a (transpose_m 3 b))) + axis_eps \<and>
   pair_angular_velocity aa dt a b =
     (let d = aa (matmul 3 a (transpose_m 3 b))
      in map (\<lambda>x. x / (norm2 d + axis_eps) * norm2 d / dt) d) \<and>
   (Suc t < length r \<longrightarrow>
      compute_angular_velocity aa r dt False ! t = pair_angular_velocity aa dt (r ! Suc t) (r ! t)) \<and>
   (matmul 3 a (transpose_m 3 b) = I3 \<longrightarrow> aa I3 = [0, 0, 0] \<longrightarrow>
      pair_angular_velocity aa dt a b = [0, 0, 0])"
proof -
  have "0 < norm2 (aa (matmul 3 a (transpose_m 3 b))) + axis_eps"
    using norm2_nonneg [of "aa (matmul 3 a (transpose_m 3 b))"] axis_eps_pos by linarith
  moreover have "Suc t < length r \<longrightarrow>
      compute_angular_velocity aa r dt False ! t = pair_angular_velocity aa dt (r ! Suc t) (r ! t)"
    by (simp add: compute_angular_velocity_def angular_velocity_padded_nth)
  ultimately show ?thesis
    using pair_angular_velocity_eq [of aa dt a b] pair_angular_velocity_identity [of a b aa dt]
    by blast
qed


theorem pair_angular_velocity_denominator_positive_witness:
  "0 < norm2 (rotmat_to_aa_ref (matmul 3 I3 (transpose_m 3 I3))) + axis_eps \<and>
   Suc 0 < length [I3, I3] \<and>
   compute_angular_velocity rotmat_to_aa_ref [I3, I3] (1 / 60) False ! 0
     = pair_angular_velocity rotmat_to_aa_ref (1 / 60) I3 I3 \<and>
   matmul 3 I3 (transpose_m 3 I3) = I3 \<and> rotmat_to_aa_ref I3 = [0, 0, 0] \<and>
   pair_angular_velocity rotmat_to_aa_ref (1 / 60) I3 I3 = [0, 0, 0]"
  using pair_angular_velocity_denominator_positive
    [of rotmat_to_aa_ref I3 I3 "1 / 60" 0 "[I3, I3]"]
    demo_relative_rotations(3) rotmat_to_aa_ref_I3
  by simp

end
